theory Spec2Isabelle
  imports Complex_Main "HOL-Library.AList"
begin

section \<open>Values, exceptions and the outside world\<close>

text \<open>
  The module \<^verbatim>\<open>donkeylabs_job.py\<close> is modelled by explicit state passing. A
  \<^verbatim>\<open>DonkeylabsJob\<close> object is a record of its attributes; everything outside the
  module (sockets, the clock, standard input, the process environment, the JSON
  library) is an environment of oracles, read in call order through counters, and
  every effect is appended to a chronological trace.
\<close>

text \<open>
  Python values as far as the module handles them: what \<^verbatim>\<open>json.loads\<close> can
  produce, plus a container that contains itself (\<open>PCycle\<close>) and an object of a
  class the encoder does not know (\<open>PObject\<close>, carrying the class name).
  Dictionaries keep insertion order, so they are association lists updated with
  \<open>AList.update\<close>.
\<close>

datatype pyval =
    PNone
  | PBool bool
  | PInt int
  | PFloat rat
  | PStr string
  | PList "pyval list"
  | PDict "(string \<times> pyval) list"
  | PCycle
  | PObject string

type_synonym pydict = "(string \<times> pyval) list"

text \<open>Truth value testing (\<^verbatim>\<open>if x:\<close>, \<^verbatim>\<open>not x\<close>, \<^verbatim>\<open>x or y\<close>).\<close>

fun truthy :: "pyval \<Rightarrow> bool" where
  "truthy PNone = False"
| "truthy (PBool b) = b"
| "truthy (PInt i) = (i \<noteq> 0)"
| "truthy (PFloat r) = (r \<noteq> 0)"
| "truthy (PStr s) = (s \<noteq> [])"
| "truthy (PList xs) = (xs \<noteq> [])"
| "truthy (PDict kvs) = (kvs \<noteq> [])"
| "truthy PCycle = True"
| "truthy (PObject c) = True"

text \<open>
  Exception classes. \<open>KeyboardInterrupt\<close> and \<open>SystemExit\<close> derive from
  \<^verbatim>\<open>BaseException\<close> only, so an \<^verbatim>\<open>except Exception\<close> clause lets them through.
\<close>

datatype exc_class =
    BrokenPipeError
  | ConnectionResetError
  | ConnectionRefusedError
  | FileNotFoundError
  | OSError
  | ValueError
  | JSONDecodeError
  | TypeError
  | AttributeError
  | RecursionError
  | RuntimeError
  | KeyboardInterrupt
  | SystemExit

datatype exc = Exc exc_class string

text \<open>\<^verbatim>\<open>str(e)\<close>\<close>

fun exc_str :: "exc \<Rightarrow> string" where
  "exc_str (Exc c m) = m"

text \<open>\<^verbatim>\<open>except (BrokenPipeError, ConnectionResetError, OSError)\<close>\<close>

fun is_OSError :: "exc \<Rightarrow> bool" where
  "is_OSError (Exc c m) = (c \<in> {BrokenPipeError, ConnectionResetError,
     ConnectionRefusedError, FileNotFoundError, OSError})"

text \<open>\<^verbatim>\<open>except Exception\<close>\<close>

fun is_Exception :: "exc \<Rightarrow> bool" where
  "is_Exception (Exc c m) = (c \<notin> {KeyboardInterrupt, SystemExit})"

text \<open>\<^verbatim>\<open>except json.JSONDecodeError\<close>\<close>

fun is_JSONDecodeError :: "exc \<Rightarrow> bool" where
  "is_JSONDecodeError (Exc c m) = (c = JSONDecodeError)"

datatype json_text = JsonText pyval

text \<open>
  \<^verbatim>\<open>(json.dumps(message) + "\n").encode("utf-8")\<close>: the bytes of one line. The
  encoder's output is ASCII, so the encoding step cannot fail.
\<close>

datatype frame = Line json_text

text \<open>\<^verbatim>\<open>int(x)\<close> on a float truncates towards zero.\<close>

definition py_int :: "rat \<Rightarrow> int" where
  "py_int r = (if r < 0 then \<lceil>r\<rceil> else \<lfloor>r\<rfloor>)"

datatype family = AF_INET | AF_UNIX

text \<open>A socket object: its family and the index of the call that created it.\<close>

datatype sock = Sock family nat

datatype address = TcpAddr string int | UnixAddr string

datatype thread_target = HeartbeatLoop | ReconnectLoop

text \<open>The lines the module prints to \<^verbatim>\<open>sys.stderr\<close>.\<close>

datatype logline =
    ConnectionLost exc
  | FailedToSend exc
  | AttemptingReconnect
  | ReconnectedAfter nat
  | ReconnectAttemptFailed nat int exc
  | FailedToReconnectAfter int
  | ReconnectionSuccessful
  | ReconnectionFailed
  | NoPayload
  | FailedToParse exc
  | MissingJobIdOrSocketPath

datatype action =
    Stderr logline
  | SocketNew family "exc option"
  | Connect sock address "exc option"
  | Close sock
  | Sendall sock frame "exc option"
  | Sleep rat
  | ThreadStart thread_target nat
  | ThreadJoin nat rat

text \<open>
  The environment. The \<open>n\<close>-th call of a socket operation, and the \<open>n\<close>-th
  \<^verbatim>\<open>print\<close> to \<^verbatim>\<open>sys.stderr\<close>, gets the \<open>n\<close>-th outcome of its oracle:
  \<open>None\<close> when the call returns, \<open>Some e\<close> when it raises \<open>e\<close>; the
  \<^verbatim>\<open>start\<close> of the \<open>n\<close>-th thread created gets the \<open>n\<close>-th outcome of
  \<open>thread_start\<close>. \<open>socket.close()\<close> has no oracle: the module swallows
  whatever it raises. The last two fields are the interpreter's limits that the
  JSON encoder meets.
\<close>

record env =
  sock_create :: "nat \<Rightarrow> exc option"
  sock_connect :: "nat \<Rightarrow> exc option"
  sock_sendall :: "nat \<Rightarrow> exc option"
  time_time :: "nat \<Rightarrow> rat"
  int_of_str :: "string \<Rightarrow> int option"
  json_loads :: "string \<Rightarrow> exc + pyval"
  stdin_readline :: string
  environ :: "string \<Rightarrow> string option"
  format_exc :: "exc \<Rightarrow> string"
  stderr_print :: "nat \<Rightarrow> exc option"
  thread_start :: "nat \<Rightarrow> exc option"
  int_max_str_digits :: nat
  max_nesting :: nat

record io =
  n_create :: nat
  n_connect :: nat
  n_sendall :: nat
  n_time :: nat
  n_thread :: nat
  n_print :: nat
  trace :: "action list"

definition io0 :: io where
  "io0 = \<lparr>n_create = 0, n_connect = 0, n_sendall = 0, n_time = 0, n_thread = 0, n_print = 0,
          trace = []\<rparr>"

definition emit :: "action \<Rightarrow> io \<Rightarrow> io" where
  "emit a w = w\<lparr>trace := trace w @ [a]\<rparr>"

text \<open>
  \<^verbatim>\<open>print(..., file=sys.stderr)\<close>: the line reaches the trace when the call
  returns; \<open>printed l w\<close> is the world after a print that returned.
\<close>

definition printed :: "logline \<Rightarrow> io \<Rightarrow> io" where
  "printed l w = emit (Stderr l) (w\<lparr>n_print := Suc (n_print w)\<rparr>)"

fun print_stderr :: "env \<Rightarrow> logline \<Rightarrow> io \<Rightarrow> exc option \<times> io" where
  "print_stderr E l w =
     (case stderr_print E (n_print w) of
        None \<Rightarrow> (None, printed l w)
      | Some e \<Rightarrow> (Some e, w\<lparr>n_print := Suc (n_print w)\<rparr>))"

text \<open>\<^verbatim>\<open>time.sleep(d)\<close> raises \<^verbatim>\<open>ValueError\<close> for a negative \<open>d\<close>.\<close>

fun py_sleep :: "rat \<Rightarrow> io \<Rightarrow> exc option \<times> io" where
  "py_sleep d w =
     (if d < 0 then (Some (Exc ValueError ''sleep length must be non-negative''), w)
      else (None, emit (Sleep d) w))"

text \<open>
  \<^verbatim>\<open>json.dumps\<close>: the encoder walks the value in order and raises at the first
  value it cannot encode: \<^verbatim>\<open>ValueError\<close> for a circular reference and for an
  integer with more decimal digits than the interpreter converts (no limit when
  the limit is zero), \<^verbatim>\<open>TypeError\<close> for an unknown object,
  \<^verbatim>\<open>RecursionError\<close> on entering a container at a level the interpreter does
  not reach. Otherwise it returns the text of the document, kept abstract here as
  \<open>JsonText v\<close>.
\<close>

fun first_error :: "exc option list \<Rightarrow> exc option" where
  "first_error [] = None"
| "first_error (None # rs) = first_error rs"
| "first_error (Some e # rs) = Some e"

definition int_too_long :: "env \<Rightarrow> int \<Rightarrow> bool" where
  "int_too_long E i = (int_max_str_digits E \<noteq> 0 \<and> 10 ^ int_max_str_digits E \<le> \<bar>i\<bar>)"

fun dumps_error :: "env \<Rightarrow> nat \<Rightarrow> pyval \<Rightarrow> exc option" where
  "dumps_error E d (PInt i) =
     (if int_too_long E i
      then Some (Exc ValueError ''Exceeds the limit for integer string conversion'')
      else None)"
| "dumps_error E d (PList xs) =
     (if max_nesting E \<le> d
      then Some (Exc RecursionError ''maximum recursion depth exceeded while encoding a JSON object'')
      else first_error (map (dumps_error E (Suc d)) xs))"
| "dumps_error E d (PDict kvs) =
     (if max_nesting E \<le> d
      then Some (Exc RecursionError ''maximum recursion depth exceeded while encoding a JSON object'')
      else first_error (map (\<lambda>kv. dumps_error E (Suc d) (snd kv)) kvs))"
| "dumps_error E d PCycle = Some (Exc ValueError ''Circular reference detected'')"
| "dumps_error E d (PObject c) =
     Some (Exc TypeError (''Object of type '' @ c @ '' is not JSON serializable''))"
| "dumps_error E d v = None"

definition json_dumps :: "env \<Rightarrow> pyval \<Rightarrow> exc + json_text" where
  "json_dumps E v = (case dumps_error E 0 v of Some e \<Rightarrow> Inl e | None \<Rightarrow> Inr (JsonText v))"


section \<open>The job object\<close>

text \<open>
  The attributes of \<^verbatim>\<open>DonkeylabsJob\<close>. The two locks carry no data; what they
  serialise is discussed with the interleaving model below.
\<close>

record job =
  job_id :: pyval
  name :: pyval
  data :: pyval
  socket_path :: pyval
  heartbeat_interval :: rat
  reconnect_interval :: rat
  max_reconnect_attempts :: int
  socket :: "sock option"
  heartbeat_thread :: "nat option"
  reconnect_thread :: "nat option"
  running :: bool
  connected :: bool

text \<open>\<^verbatim>\<open>DonkeylabsJob.__init__\<close>\<close>

definition init :: "pyval \<Rightarrow> pyval \<Rightarrow> pyval \<Rightarrow> pyval \<Rightarrow> rat \<Rightarrow> rat \<Rightarrow> int \<Rightarrow> job" where
  "init jid nm dat path hb ri mra =
     \<lparr>job_id = jid, name = nm, data = dat, socket_path = path,
      heartbeat_interval = hb, reconnect_interval = ri, max_reconnect_attempts = mra,
      socket = None, heartbeat_thread = None, reconnect_thread = None,
      running = False, connected = False\<rparr>"

text \<open>The default values of the keyword parameters of \<^verbatim>\<open>__init__\<close>.\<close>

definition default_heartbeat_interval :: rat where
  "default_heartbeat_interval = 5"

definition default_reconnect_interval :: rat where
  "default_reconnect_interval = 2"

definition default_max_reconnect_attempts :: int where
  "default_max_reconnect_attempts = 30"

section \<open>Sending\<close>

text \<open>
  The creation, store and start of the reconnection thread in \<^verbatim>\<open>_send_message\<close>:
  the thread object is stored before \<^verbatim>\<open>start\<close> is called, so it stays stored
  when \<^verbatim>\<open>start\<close> raises.
\<close>

fun start_reconnect_thread :: "env \<Rightarrow> job \<times> io \<Rightarrow> exc option \<times> job \<times> io" where
  "start_reconnect_thread E (j, w) =
     (let tid = n_thread w;
          j1 = j\<lparr>reconnect_thread := Some tid\<rparr>;
          w1 = w\<lparr>n_thread := Suc tid\<rparr>
      in (case thread_start E tid of
            None \<Rightarrow> (None, j1, emit (ThreadStart ReconnectLoop tid) w1)
          | Some x \<Rightarrow> (Some x, j1, w1)))"

text \<open>
  The two \<^verbatim>\<open>except\<close> clauses of \<^verbatim>\<open>_send_message\<close>, in the source's order; an
  exception that neither clause matches leaves the function, and so does an
  exception raised inside a clause: by the \<^verbatim>\<open>print\<close> that opens it, before
  \<^verbatim>\<open>_connected\<close> is cleared, or by the start of the thread.
\<close>

fun send_except :: "env \<Rightarrow> exc \<Rightarrow> pydict \<Rightarrow> job \<times> io \<Rightarrow> (exc + bool) \<times> pydict \<times> job \<times> io" where
  "send_except E e message (j, w) =
     (if is_OSError e then
        (case print_stderr E (ConnectionLost e) w of
           (Some x, w1) \<Rightarrow> (Inl x, message, j, w1)
         | (None, w1) \<Rightarrow>
             (let j1 = j\<lparr>connected := False\<rparr>
              in if running j1 \<and> reconnect_thread j1 = None then
                   (case start_reconnect_thread E (j1, w1) of
                      (Some x, j2, w2) \<Rightarrow> (Inl x, message, j2, w2)
                    | (None, j2, w2) \<Rightarrow> (Inr False, message, j2, w2))
                 else (Inr False, message, j1, w1)))
      else if is_Exception e then
        (case print_stderr E (FailedToSend e) w of
           (Some x, w1) \<Rightarrow> (Inl x, message, j, w1)
         | (None, w1) \<Rightarrow> (Inr False, message, j, w1))
      else (Inl e, message, j, w))"

text \<open>
  \<^verbatim>\<open>_send_message\<close>. The dictionary is mutated in place, so the stamped
  dictionary is returned next to the result.
\<close>

fun send_message :: "env \<Rightarrow> pydict \<Rightarrow> job \<times> io \<Rightarrow> (exc + bool) \<times> pydict \<times> job \<times> io" where
  "send_message E message (j, w) =
     (case socket j of
        None \<Rightarrow> (Inr False, message, j, w)
      | Some s \<Rightarrow>
          (let m1 = AList.update ''jobId'' (job_id j) message;
               t = time_time E (n_time w);
               w1 = w\<lparr>n_time := Suc (n_time w)\<rparr>;
               m2 = AList.update ''timestamp'' (PInt (py_int (t * 1000))) m1
           in (case json_dumps E (PDict m2) of
                 Inl e \<Rightarrow> send_except E e m2 (j, w1)
               | Inr doc \<Rightarrow>
                   (let r = sock_sendall E (n_sendall w1);
                        w2 = emit (Sendall s (Line doc) r) (w1\<lparr>n_sendall := Suc (n_sendall w1)\<rparr>)
                    in (case r of
                          None \<Rightarrow> (Inr True, m2, j, w2)
                        | Some e \<Rightarrow> send_except E e m2 (j, w2))))))"

text \<open>\<^verbatim>\<open>_send_started\<close>: the result of the send is dropped.\<close>

fun returns_None :: "(exc + bool) \<times> pydict \<times> job \<times> io \<Rightarrow> (exc + pyval) \<times> job \<times> io" where
  "returns_None (Inl e, m, j, w) = (Inl e, j, w)"
| "returns_None (Inr b, m, j, w) = (Inr PNone, j, w)"

definition send_started :: "env \<Rightarrow> job \<times> io \<Rightarrow> (exc + pyval) \<times> job \<times> io" where
  "send_started E jw = returns_None (send_message E [(''type'', PStr ''started'')] jw)"

section \<open>Connecting\<close>

text \<open>
  \<^verbatim>\<open>addr.rsplit(":", 1)\<close> unpacked into two names: the text before and after the
  last separator, or \<open>None\<close> where the unpacking raises because there is none.
\<close>

definition rsplit1 :: "char \<Rightarrow> string \<Rightarrow> (string \<times> string) option" where
  "rsplit1 c s =
     (if c \<in> set s
      then Some (rev (tl (dropWhile (\<lambda>x. x \<noteq> c) (rev s))), rev (takeWhile (\<lambda>x. x \<noteq> c) (rev s)))
      else None)"

text \<open>\<^verbatim>\<open>self._socket = socket.socket(family, socket.SOCK_STREAM)\<close>\<close>

fun new_socket :: "env \<Rightarrow> family \<Rightarrow> job \<times> io \<Rightarrow> (exc + sock) \<times> job \<times> io" where
  "new_socket E fam (j, w) =
     (let r = sock_create E (n_create w);
          w1 = emit (SocketNew fam r) (w\<lparr>n_create := Suc (n_create w)\<rparr>)
      in (case r of
            Some e \<Rightarrow> (Inl e, j, w1)
          | None \<Rightarrow> (Inr (Sock fam (n_create w)), j\<lparr>socket := Some (Sock fam (n_create w))\<rparr>, w1)))"

text \<open>\<^verbatim>\<open>self._socket.connect(address)\<close>\<close>

fun socket_connect :: "env \<Rightarrow> sock \<Rightarrow> address \<Rightarrow> job \<times> io \<Rightarrow> (exc + pyval) \<times> job \<times> io" where
  "socket_connect E s a (j, w) =
     (let r = sock_connect E (n_connect w);
          w1 = emit (Connect s a r) (w\<lparr>n_connect := Suc (n_connect w)\<rparr>)
      in (case r of Some e \<Rightarrow> (Inl e, j, w1) | None \<Rightarrow> (Inr PNone, j, w1)))"

text \<open>
  \<^verbatim>\<open>_do_connect\<close>. A socket path that is not a string has no
  \<^verbatim>\<open>startswith\<close>. In the TCP branch the socket is created and stored before
  \<^verbatim>\<open>int(port)\<close> is evaluated.
\<close>

fun do_connect :: "env \<Rightarrow> job \<times> io \<Rightarrow> (exc + pyval) \<times> job \<times> io" where
  "do_connect E (j, w) =
     (case socket_path j of
        PStr p \<Rightarrow>
          (if take 6 p = ''tcp://'' then
             (let addr = drop 6 p
              in (case rsplit1 CHR '':'' addr of
                    None \<Rightarrow> (Inl (Exc ValueError ''not enough values to unpack (expected 2, got 1)''), j, w)
                  | Some (host, port) \<Rightarrow>
                      (case new_socket E AF_INET (j, w) of
                         (Inl e, jw1) \<Rightarrow> (Inl e, jw1)
                       | (Inr s, jw1) \<Rightarrow>
                           (case int_of_str E port of
                              None \<Rightarrow> (Inl (Exc ValueError ''invalid literal for int() with base 10''), jw1)
                            | Some n \<Rightarrow> socket_connect E s (TcpAddr host n) jw1))))
           else
             (case new_socket E AF_UNIX (j, w) of
                (Inl e, jw1) \<Rightarrow> (Inl e, jw1)
              | (Inr s, jw1) \<Rightarrow> socket_connect E s (UnixAddr p) jw1))
      | _ \<Rightarrow> (Inl (Exc AttributeError ''object has no attribute startswith''), j, w))"

text \<open>
  \<^verbatim>\<open>_start_heartbeat\<close>: creates, stores and starts the heartbeat thread; the
  thread stays stored when \<^verbatim>\<open>start\<close> raises.
\<close>

fun start_heartbeat :: "env \<Rightarrow> job \<times> io \<Rightarrow> exc option \<times> job \<times> io" where
  "start_heartbeat E (j, w) =
     (let tid = n_thread w;
          j1 = j\<lparr>heartbeat_thread := Some tid\<rparr>;
          w1 = w\<lparr>n_thread := Suc tid\<rparr>
      in (case thread_start E tid of
            None \<Rightarrow> (None, j1, emit (ThreadStart HeartbeatLoop tid) w1)
          | Some x \<Rightarrow> (Some x, j1, w1)))"

text \<open>
  One round of \<^verbatim>\<open>heartbeat_loop\<close>: the loop test, and when it holds one send and
  one sleep. The first component tells whether the loop goes on.
\<close>

fun heartbeat_round :: "env \<Rightarrow> job \<times> io \<Rightarrow> (exc + bool) \<times> job \<times> io" where
  "heartbeat_round E (j, w) =
     (if running j then
        (case send_message E [(''type'', PStr ''heartbeat'')] (j, w) of
           (Inl e, m, j1, w1) \<Rightarrow> (Inl e, j1, w1)
         | (Inr b, m, j1, w1) \<Rightarrow>
             (case py_sleep (heartbeat_interval j1) w1 of
                (Some x, w2) \<Rightarrow> (Inl x, j1, w2)
              | (None, w2) \<Rightarrow> (Inr True, j1, w2)))
      else (Inr False, j, w))"

text \<open>\<^verbatim>\<open>connect\<close>\<close>

fun connect :: "env \<Rightarrow> job \<times> io \<Rightarrow> (exc + pyval) \<times> job \<times> io" where
  "connect E (j, w) =
     (case do_connect E (j, w) of
        (Inl e, jw1) \<Rightarrow> (Inl e, jw1)
      | (Inr v, j1, w1) \<Rightarrow>
          (case start_heartbeat E (j1\<lparr>running := True, connected := True\<rparr>, w1) of
             (Some x, jw2) \<Rightarrow> (Inl x, jw2)
           | (None, jw2) \<Rightarrow> send_started E jw2))"

text \<open>
  \<^verbatim>\<open>disconnect\<close>: the join has a timeout of two seconds, and raises
  \<^verbatim>\<open>RuntimeError\<close> for a thread that was stored and never started; what
  \<^verbatim>\<open>close\<close> raises is dropped.
\<close>

definition thread_started :: "thread_target \<Rightarrow> nat \<Rightarrow> io \<Rightarrow> bool" where
  "thread_started target t w = (ThreadStart target t \<in> set (trace w))"

fun close_socket :: "job \<times> io \<Rightarrow> job \<times> io" where
  "close_socket (j, w) = (case socket j of None \<Rightarrow> (j, w) | Some s \<Rightarrow> (j, emit (Close s) w))"

fun join_heartbeat :: "job \<times> io \<Rightarrow> exc option \<times> io" where
  "join_heartbeat (j, w) =
     (case heartbeat_thread j of
        None \<Rightarrow> (None, w)
      | Some t \<Rightarrow>
          (if thread_started HeartbeatLoop t w then (None, emit (ThreadJoin t 2) w)
           else (Some (Exc RuntimeError ''cannot join thread before it is started''), w)))"

fun disconnect :: "job \<times> io \<Rightarrow> (exc + pyval) \<times> job \<times> io" where
  "disconnect (j, w) =
     (let j1 = j\<lparr>running := False\<rparr>
      in (case join_heartbeat (j1, w) of
            (Some x, w1) \<Rightarrow> (Inl x, j1, w1)
          | (None, w1) \<Rightarrow> (case close_socket (j1, w1) of (j2, w2) \<Rightarrow> (Inr PNone, j2, w2))))"

section \<open>Reconnecting\<close>

text \<open>
  The body of the loop of \<^verbatim>\<open>_try_reconnect\<close> in three parts: closing the old
  socket and connecting; marking the job connected and printing so (the started
  message follows); and the \<^verbatim>\<open>except\<close> clause, which prints and sleeps. What
  the print or the sleep of the clause raises leaves the procedure.
\<close>

definition attempt_connect :: "env \<Rightarrow> job \<times> io \<Rightarrow> (exc + pyval) \<times> job \<times> io" where
  "attempt_connect E jw = do_connect E (close_socket jw)"

fun mark_reconnected :: "env \<Rightarrow> nat \<Rightarrow> job \<times> io \<Rightarrow> exc option \<times> job \<times> io" where
  "mark_reconnected E attempt (j, w) =
     (case print_stderr E (ReconnectedAfter (attempt + 1)) w of
        (r, w1) \<Rightarrow> (r, j\<lparr>connected := True\<rparr>, w1))"

fun attempt_failed :: "env \<Rightarrow> nat \<Rightarrow> exc \<Rightarrow> job \<times> io \<Rightarrow> exc option \<times> job \<times> io" where
  "attempt_failed E attempt e (j, w) =
     (case print_stderr E (ReconnectAttemptFailed (attempt + 1) (max_reconnect_attempts j) e) w of
        (Some x, w1) \<Rightarrow> (Some x, j, w1)
      | (None, w1) \<Rightarrow> (case py_sleep (reconnect_interval j) w1 of (r, w2) \<Rightarrow> (r, j, w2)))"

text \<open>
  The \<^verbatim>\<open>except Exception\<close> clause of the loop body for an exception raised in
  the \<^verbatim>\<open>try\<close> block: \<open>None\<close> when the loop goes on, the exception that leaves
  the procedure otherwise.
\<close>

definition attempt_except :: "env \<Rightarrow> nat \<Rightarrow> exc \<Rightarrow> job \<times> io \<Rightarrow> exc option \<times> job \<times> io" where
  "attempt_except E attempt e jw = (if is_Exception e then attempt_failed E attempt e jw else (Some e, jw))"

text \<open>The \<^verbatim>\<open>try\<close> block of the loop body, up to \<^verbatim>\<open>return True\<close>.\<close>

definition attempt_try :: "env \<Rightarrow> nat \<Rightarrow> job \<times> io \<Rightarrow> (exc + pyval) \<times> job \<times> io" where
  "attempt_try E attempt jw =
     (case attempt_connect E jw of
        (Inl e, jw2) \<Rightarrow> (Inl e, jw2)
      | (Inr v, jw2) \<Rightarrow>
          (case mark_reconnected E attempt jw2 of
             (Some x, jw3) \<Rightarrow> (Inl x, jw3)
           | (None, jw3) \<Rightarrow> send_started E jw3))"

text \<open>
  The \<^verbatim>\<open>for attempt in range(...)\<close> loop of \<^verbatim>\<open>_try_reconnect\<close>, over the list
  of attempt numbers still to run, with the code after the loop as its base case.
  The \<^verbatim>\<open>except\<close> clause of the loop body catches \<^verbatim>\<open>Exception\<close> only.
\<close>

fun reconnect_attempts :: "env \<Rightarrow> nat list \<Rightarrow> job \<times> io \<Rightarrow> (exc + bool) \<times> job \<times> io" where
  "reconnect_attempts E [] (j, w) =
     (case print_stderr E (FailedToReconnectAfter (max_reconnect_attempts j)) w of
        (Some x, w1) \<Rightarrow> (Inl x, j, w1)
      | (None, w1) \<Rightarrow> (Inr False, j, w1))"
| "reconnect_attempts E (attempt # rest) (j, w) =
     (case attempt_try E attempt (j, w) of
        (Inr v, jw3) \<Rightarrow> (Inr True, jw3)
      | (Inl e, jw3) \<Rightarrow>
          (case attempt_except E attempt e jw3 of
             (Some x, jw4) \<Rightarrow> (Inl x, jw4)
           | (None, jw4) \<Rightarrow> reconnect_attempts E rest jw4))"

text \<open>\<^verbatim>\<open>_try_reconnect\<close>; \<^verbatim>\<open>range(n)\<close> is empty for \<open>n \<le> 0\<close>.\<close>

fun try_reconnect :: "env \<Rightarrow> job \<times> io \<Rightarrow> (exc + bool) \<times> job \<times> io" where
  "try_reconnect E (j, w) =
     (if connected j then (Inr True, j, w)
      else (case print_stderr E AttemptingReconnect w of
              (Some x, w1) \<Rightarrow> (Inl x, j, w1)
            | (None, w1) \<Rightarrow> reconnect_attempts E [0..<nat (max_reconnect_attempts j)] (j, w1)))"

text \<open>
  \<^verbatim>\<open>_reconnect_loop\<close>, the body of the reconnection thread. When its
  \<^verbatim>\<open>print\<close> raises, \<^verbatim>\<open>_reconnect_thread\<close> is not cleared.
\<close>

fun reconnect_loop :: "env \<Rightarrow> job \<times> io \<Rightarrow> (exc + pyval) \<times> job \<times> io" where
  "reconnect_loop E (j, w) =
     (case try_reconnect E (j, w) of
        (Inl e, jw1) \<Rightarrow> (Inl e, jw1)
      | (Inr ok, j1, w1) \<Rightarrow>
          (case print_stderr E (if ok then ReconnectionSuccessful else ReconnectionFailed) w1 of
             (Some x, w2) \<Rightarrow> (Inl x, j1, w2)
           | (None, w2) \<Rightarrow> (Inr PNone, j1\<lparr>reconnect_thread := None\<rparr>, w2)))"

section \<open>Events\<close>

text \<open>Truth value of an \<^verbatim>\<open>Optional[str]\<close> argument.\<close>

fun str_truthy :: "string option \<Rightarrow> bool" where
  "str_truthy None = False"
| "str_truthy (Some s) = (s \<noteq> [])"

text \<open>
  The dictionaries that \<^verbatim>\<open>progress\<close>, \<^verbatim>\<open>log\<close>, \<^verbatim>\<open>complete\<close> and
  \<^verbatim>\<open>fail\<close> build before they call \<^verbatim>\<open>_send_message\<close>; \<open>kw\<close> is the
  dictionary of extra keyword arguments.
\<close>

definition progress_msg :: "pyval \<Rightarrow> string option \<Rightarrow> pydict \<Rightarrow> pydict" where
  "progress_msg percent message kw =
     (let msg = [(''type'', PStr ''progress''), (''percent'', percent)];
          msg1 = (if str_truthy message then AList.update ''message'' (PStr (the message)) msg else msg)
      in if kw \<noteq> [] then AList.update ''data'' (PDict kw) msg1 else msg1)"

definition log_msg :: "string \<Rightarrow> string \<Rightarrow> pydict \<Rightarrow> pydict" where
  "log_msg level message kw =
     (let msg = [(''type'', PStr ''log''), (''level'', PStr level), (''message'', PStr message)]
      in if kw \<noteq> [] then AList.update ''data'' (PDict kw) msg else msg)"

definition complete_msg :: "pyval \<Rightarrow> pydict" where
  "complete_msg result =
     (let msg = [(''type'', PStr ''completed'')]
      in if result \<noteq> PNone then AList.update ''result'' result msg else msg)"

definition fail_msg :: "string \<Rightarrow> string option \<Rightarrow> pydict" where
  "fail_msg err stack =
     (let msg = [(''type'', PStr ''failed''), (''error'', PStr err)]
      in if str_truthy stack then AList.update ''stack'' (PStr (the stack)) msg else msg)"

definition progress :: "env \<Rightarrow> pyval \<Rightarrow> string option \<Rightarrow> pydict \<Rightarrow> job \<times> io \<Rightarrow> (exc + pyval) \<times> job \<times> io" where
  "progress E percent message kw jw = returns_None (send_message E (progress_msg percent message kw) jw)"

definition log :: "env \<Rightarrow> string \<Rightarrow> string \<Rightarrow> pydict \<Rightarrow> job \<times> io \<Rightarrow> (exc + pyval) \<times> job \<times> io" where
  "log E level message kw jw = returns_None (send_message E (log_msg level message kw) jw)"

definition debug :: "env \<Rightarrow> string \<Rightarrow> pydict \<Rightarrow> job \<times> io \<Rightarrow> (exc + pyval) \<times> job \<times> io" where
  "debug E message kw jw = log E ''debug'' message kw jw"

definition info :: "env \<Rightarrow> string \<Rightarrow> pydict \<Rightarrow> job \<times> io \<Rightarrow> (exc + pyval) \<times> job \<times> io" where
  "info E message kw jw = log E ''info'' message kw jw"

definition warn :: "env \<Rightarrow> string \<Rightarrow> pydict \<Rightarrow> job \<times> io \<Rightarrow> (exc + pyval) \<times> job \<times> io" where
  "warn E message kw jw = log E ''warn'' message kw jw"

definition error :: "env \<Rightarrow> string \<Rightarrow> pydict \<Rightarrow> job \<times> io \<Rightarrow> (exc + pyval) \<times> job \<times> io" where
  "error E message kw jw = log E ''error'' message kw jw"

definition complete :: "env \<Rightarrow> pyval \<Rightarrow> job \<times> io \<Rightarrow> (exc + pyval) \<times> job \<times> io" where
  "complete E result jw = returns_None (send_message E (complete_msg result) jw)"

definition fail :: "env \<Rightarrow> string \<Rightarrow> string option \<Rightarrow> job \<times> io \<Rightarrow> (exc + pyval) \<times> job \<times> io" where
  "fail E err stack jw = returns_None (send_message E (fail_msg err stack) jw)"

section \<open>Running a job\<close>

text \<open>
  How \<^verbatim>\<open>run_job\<close> ends: it returns, it calls \<^verbatim>\<open>sys.exit\<close> with a code, or
  an exception leaves it.
\<close>

datatype proc_exit = Returned | Exited int | Uncaught exc


type_synonym handler = "job \<times> io \<Rightarrow> (exc + pyval) \<times> job \<times> io"

text \<open>\<^verbatim>\<open>payload.get(key)\<close> and \<^verbatim>\<open>os.environ.get(key)\<close>\<close>

definition dict_get :: "pydict \<Rightarrow> string \<Rightarrow> pyval" where
  "dict_get kvs k = (case map_of kvs k of None \<Rightarrow> PNone | Some v \<Rightarrow> v)"

definition environ_get :: "env \<Rightarrow> string \<Rightarrow> pyval" where
  "environ_get E k = (case environ E k of None \<Rightarrow> PNone | Some v \<Rightarrow> PStr v)"

text \<open>The job id and the socket path after the fall back to the environment.\<close>

definition resolved_job_id :: "env \<Rightarrow> pydict \<Rightarrow> pyval" where
  "resolved_job_id E payload =
     (let job_id = dict_get payload ''jobId''
      in if \<not> truthy job_id then environ_get E ''DONKEYLABS_JOB_ID'' else job_id)"

definition resolved_socket_path :: "env \<Rightarrow> pydict \<Rightarrow> pyval" where
  "resolved_socket_path E payload =
     (let socket_path = dict_get payload ''socketPath''
      in if \<not> truthy socket_path then
           (let socket_path1 = environ_get E ''DONKEYLABS_SOCKET_PATH''
            in (case environ E ''DONKEYLABS_TCP_PORT'' of
                  None \<Rightarrow> socket_path1
                | Some tcp_port \<Rightarrow>
                    if tcp_port \<noteq> [] \<and> \<not> truthy socket_path1
                    then PStr (''tcp://127.0.0.1:'' @ tcp_port) else socket_path1))
         else socket_path)"

text \<open>
  A \<^verbatim>\<open>print\<close> to \<^verbatim>\<open>sys.stderr\<close> followed by \<^verbatim>\<open>sys.exit(1)\<close>, in a world with
  an empty trace.
\<close>

definition print_and_exit :: "env \<Rightarrow> logline \<Rightarrow> proc_exit \<times> io" where
  "print_and_exit E l =
     (case print_stderr E l io0 of
        (Some x, w) \<Rightarrow> (Uncaught x, w)
      | (None, w) \<Rightarrow> (Exited 1, w))"

text \<open>
  The first part of \<^verbatim>\<open>run_job\<close>, up to the construction of the job object:
  either the way the process ends, or the job. A payload that is not a dictionary
  has no \<^verbatim>\<open>get\<close>.
\<close>

definition read_job :: "env \<Rightarrow> rat \<Rightarrow> (proc_exit \<times> io) + job" where
  "read_job E hb =
     (let payload_line = stdin_readline E
      in if payload_line = [] then Inl (print_and_exit E NoPayload)
         else (case json_loads E payload_line of
                 Inl e \<Rightarrow>
                   (if is_JSONDecodeError e then Inl (print_and_exit E (FailedToParse e))
                    else Inl (Uncaught e, io0))
               | Inr (PDict payload) \<Rightarrow>
                   (let job_id = resolved_job_id E payload;
                        nm = dict_get payload ''name'';
                        dat = dict_get payload ''data'';
                        socket_path = resolved_socket_path E payload
                    in if \<not> truthy job_id \<or> \<not> truthy socket_path
                       then Inl (print_and_exit E MissingJobIdOrSocketPath)
                       else Inr (init job_id (if truthy nm then nm else PStr ''unknown'') dat socket_path
                                   hb default_reconnect_interval default_max_reconnect_attempts))
               | Inr v \<Rightarrow> Inl (Uncaught (Exc AttributeError ''object has no attribute get''), io0)))"

text \<open>
  The \<^verbatim>\<open>try\<close> statement of \<^verbatim>\<open>run_job\<close>: its body, its \<^verbatim>\<open>except Exception\<close>
  clause and its \<^verbatim>\<open>finally\<close> clause.
\<close>

fun session_body :: "env \<Rightarrow> handler \<Rightarrow> job \<times> io \<Rightarrow> (exc + pyval) \<times> job \<times> io" where
  "session_body E handler (j, w) =
     (case connect E (j, w) of
        (Inl e, jw1) \<Rightarrow> (Inl e, jw1)
      | (Inr v, jw1) \<Rightarrow>
          (case handler jw1 of
             (Inl e, jw2) \<Rightarrow> (Inl e, jw2)
           | (Inr result, jw2) \<Rightarrow> complete E result jw2))"

fun session_finally :: "proc_exit \<Rightarrow> job \<times> io \<Rightarrow> proc_exit \<times> io" where
  "session_finally x (j, w) =
     (case disconnect (j, w) of
        (Inl e, j1, w1) \<Rightarrow> (Uncaught e, w1)
      | (Inr v, j1, w1) \<Rightarrow> (x, w1))"

fun run_session :: "env \<Rightarrow> handler \<Rightarrow> job \<times> io \<Rightarrow> proc_exit \<times> io" where
  "run_session E handler (j, w) =
     (case session_body E handler (j, w) of
        (Inr v, jw1) \<Rightarrow> session_finally Returned jw1
      | (Inl e, jw1) \<Rightarrow>
          (if is_Exception e then
             (case fail E (exc_str e) (Some (format_exc E e)) jw1 of
                (Inl e', jw2) \<Rightarrow> session_finally (Uncaught e') jw2
              | (Inr v, jw2) \<Rightarrow> session_finally (Exited 1) jw2)
           else session_finally (Uncaught e) jw1))"


section \<open>Notions used in the properties\<close>

text \<open>The dictionary after the two assignments that open \<^verbatim>\<open>_send_message\<close>.\<close>

definition stamped :: "env \<Rightarrow> pydict \<Rightarrow> job \<times> io \<Rightarrow> pydict" where
  "stamped E message jw =
     AList.update ''timestamp'' (PInt (py_int (time_time E (n_time (snd jw)) * 1000)))
       (AList.update ''jobId'' (job_id (fst jw)) message)"

text \<open>
  A value is well formed when it holds no cycle and no object unknown to the
  encoder, every integer in it is within the interpreter's digit limit, and its
  containers are nested no deeper than the encoder can enter.
\<close>

fun json_typed :: "pyval \<Rightarrow> bool" where
  "json_typed (PList xs) = list_all json_typed xs"
| "json_typed (PDict kvs) = list_all (\<lambda>kv. json_typed (snd kv)) kvs"
| "json_typed PCycle = False"
| "json_typed (PObject c) = False"
| "json_typed v = True"

fun ints_fit :: "env \<Rightarrow> pyval \<Rightarrow> bool" where
  "ints_fit E (PInt i) = (\<not> int_too_long E i)"
| "ints_fit E (PList xs) = list_all (ints_fit E) xs"
| "ints_fit E (PDict kvs) = list_all (\<lambda>kv. ints_fit E (snd kv)) kvs"
| "ints_fit E v = True"

fun max_list :: "nat list \<Rightarrow> nat" where
  "max_list [] = 0"
| "max_list (n # ns) = max n (max_list ns)"

fun nesting :: "pyval \<Rightarrow> nat" where
  "nesting (PList xs) = Suc (max_list (map nesting xs))"
| "nesting (PDict kvs) = Suc (max_list (map (\<lambda>kv. nesting (snd kv)) kvs))"
| "nesting v = 0"

definition well_formed :: "env \<Rightarrow> pyval \<Rightarrow> bool" where
  "well_formed E v = (json_typed v \<and> ints_fit E v \<and> nesting v \<le> max_nesting E)"

text \<open>
  The six kinds of event with the arguments their callers give, and the dictionary
  built for each before it is sent: \<^verbatim>\<open>_send_started\<close>, \<^verbatim>\<open>heartbeat_loop\<close>,
  \<^verbatim>\<open>progress\<close>, \<^verbatim>\<open>log\<close>, \<^verbatim>\<open>complete\<close>, \<^verbatim>\<open>fail\<close>.
\<close>

datatype event =
    Started
  | Heartbeat
  | Progress pyval "string option" pydict
  | Log string string pydict
  | Completed pyval
  | Failed string "string option"

fun event_msg :: "event \<Rightarrow> pydict" where
  "event_msg Started = [(''type'', PStr ''started'')]"
| "event_msg Heartbeat = [(''type'', PStr ''heartbeat'')]"
| "event_msg (Progress percent message kw) = progress_msg percent message kw"
| "event_msg (Log level message kw) = log_msg level message kw"
| "event_msg (Completed result) = complete_msg result"
| "event_msg (Failed err stack) = fail_msg err stack"

fun event_kind :: "event \<Rightarrow> string" where
  "event_kind Started = ''started''"
| "event_kind Heartbeat = ''heartbeat''"
| "event_kind (Progress percent message kw) = ''progress''"
| "event_kind (Log level message kw) = ''log''"
| "event_kind (Completed result) = ''completed''"
| "event_kind (Failed err stack) = ''failed''"

text \<open>The document of a started event for a job id and a timestamp.\<close>

definition started_doc :: "pyval \<Rightarrow> int \<Rightarrow> pyval" where
  "started_doc jid ts = PDict [(''type'', PStr ''started''), (''jobId'', jid), (''timestamp'', PInt ts)]"

text \<open>
  A document carries the envelope of a job id when it is a dictionary with that
  \<open>jobId\<close>, an integer \<open>timestamp\<close> and a \<open>type\<close> that is one of the six kinds.
\<close>

definition event_kinds :: "string list" where
  "event_kinds = [''started'', ''heartbeat'', ''progress'', ''log'', ''completed'', ''failed'']"

definition carries_envelope :: "pyval \<Rightarrow> pyval \<Rightarrow> bool" where
  "carries_envelope jid d =
     (case d of
        PDict kvs \<Rightarrow>
          map_of kvs ''jobId'' = Some jid \<and>
          (case map_of kvs ''timestamp'' of Some (PInt ts) \<Rightarrow> True | _ \<Rightarrow> False) \<and>
          (case map_of kvs ''type'' of Some (PStr k) \<Rightarrow> k \<in> set event_kinds | _ \<Rightarrow> False)
      | _ \<Rightarrow> False)"

text \<open>The actions a call has added to the trace, and the actions that wait.\<close>

definition new_actions :: "io \<Rightarrow> io \<Rightarrow> action list" where
  "new_actions w w' = drop (length (trace w)) (trace w')"

text \<open>A call only appends to the trace.\<close>

definition grows :: "io \<Rightarrow> io \<Rightarrow> bool" where
  "grows w w' = (trace w' = trace w @ new_actions w w')"

fun waits :: "action \<Rightarrow> bool" where
  "waits (Sleep d) = True"
| "waits (Connect s a r) = True"
| "waits (SocketNew f r) = True"
| "waits (ThreadJoin t d) = True"
| "waits a = False"

text \<open>The documents given to \<^verbatim>\<open>sendall\<close>, whatever the call's outcome.\<close>

fun sent :: "action list \<Rightarrow> pyval list" where
  "sent [] = []"
| "sent (Sendall s (Line (JsonText v)) r # as) = v # sent as"
| "sent (a # as) = sent as"

text \<open>What a reconnection has left in a trace: its sleeps, and the attempts it reported.\<close>

fun sleeps :: "action list \<Rightarrow> rat list" where
  "sleeps [] = []"
| "sleeps (Sleep d # as) = d # sleeps as"
| "sleeps (a # as) = sleeps as"

fun failed_attempts :: "action list \<Rightarrow> nat list" where
  "failed_attempts [] = []"
| "failed_attempts (Stderr (ReconnectAttemptFailed k n e) # as) = k # failed_attempts as"
| "failed_attempts (a # as) = failed_attempts as"

fun successful_attempts :: "action list \<Rightarrow> nat list" where
  "successful_attempts [] = []"
| "successful_attempts (Stderr (ReconnectedAfter k) # as) = k # successful_attempts as"
| "successful_attempts (a # as) = successful_attempts as"

text \<open>
  The link is down for a send when there is no socket, or when the write that the
  send would make fails with an error of the \<^verbatim>\<open>OSError\<close> family.
\<close>

definition link_down :: "env \<Rightarrow> job \<times> io \<Rightarrow> bool" where
  "link_down E jw =
     (socket (fst jw) = None \<or>
      (case sock_sendall E (n_sendall (snd jw)) of None \<Rightarrow> False | Some e \<Rightarrow> is_OSError e))"


text \<open>
  The diagnostics of a world work: every \<^verbatim>\<open>print\<close> to \<^verbatim>\<open>sys.stderr\<close> returns
  and every thread starts.
\<close>

definition diagnostics_ok :: "env \<Rightarrow> bool" where
  "diagnostics_ok E = ((\<forall>n. stderr_print E n = None) \<and> (\<forall>n. thread_start E n = None))"

text \<open>The same of the next \<^verbatim>\<open>print\<close> and the next thread of a world only.\<close>

definition diagnostics_ok_at :: "env \<Rightarrow> io \<Rightarrow> bool" where
  "diagnostics_ok_at E w = (stderr_print E (n_print w) = None \<and> thread_start E (n_thread w) = None)"


section \<open>Threads\<close>

text \<open>
  The job object is shared by the main thread (which runs \<^verbatim>\<open>connect\<close>, the
  handler's calls and \<^verbatim>\<open>disconnect\<close>), the heartbeat thread and the
  reconnection threads. Their interleavings are modelled by a step relation on the
  shared object, the world and the position of every reconnection thread. The
  three accesses to \<^verbatim>\<open>_reconnect_thread\<close> are steps of their own: the test at
  the end of the first \<^verbatim>\<open>except\<close> clause of \<^verbatim>\<open>_send_message\<close>, the store and
  start that follow it (both under \<^verbatim>\<open>_lock\<close>), and the store that ends
  \<^verbatim>\<open>_reconnect_loop\<close> (under no lock).
\<close>

text \<open>
  \<^verbatim>\<open>_send_message\<close> without the creation and start of the thread: the flag tells
  whether the test \<^verbatim>\<open>self._running and not self._reconnect_thread\<close> was reached
  and held.
\<close>

fun send_except_test :: "env \<Rightarrow> exc \<Rightarrow> pydict \<Rightarrow> job \<times> io \<Rightarrow> (exc + bool) \<times> bool \<times> pydict \<times> job \<times> io" where
  "send_except_test E e message (j, w) =
     (if is_OSError e then
        (case print_stderr E (ConnectionLost e) w of
           (Some x, w1) \<Rightarrow> (Inl x, False, message, j, w1)
         | (None, w1) \<Rightarrow>
             (let j1 = j\<lparr>connected := False\<rparr>
              in (Inr False, running j1 \<and> reconnect_thread j1 = None, message, j1, w1)))
      else if is_Exception e then
        (case print_stderr E (FailedToSend e) w of
           (Some x, w1) \<Rightarrow> (Inl x, False, message, j, w1)
         | (None, w1) \<Rightarrow> (Inr False, False, message, j, w1))
      else (Inl e, False, message, j, w))"

fun send_critical :: "env \<Rightarrow> pydict \<Rightarrow> job \<times> io \<Rightarrow> (exc + bool) \<times> bool \<times> pydict \<times> job \<times> io" where
  "send_critical E message (j, w) =
     (case socket j of
        None \<Rightarrow> (Inr False, False, message, j, w)
      | Some s \<Rightarrow>
          (let m1 = AList.update ''jobId'' (job_id j) message;
               t = time_time E (n_time w);
               w1 = w\<lparr>n_time := Suc (n_time w)\<rparr>;
               m2 = AList.update ''timestamp'' (PInt (py_int (t * 1000))) m1
           in (case json_dumps E (PDict m2) of
                 Inl e \<Rightarrow> send_except_test E e m2 (j, w1)
               | Inr doc \<Rightarrow>
                   (let r = sock_sendall E (n_sendall w1);
                        w2 = emit (Sendall s (Line doc) r) (w1\<lparr>n_sendall := Suc (n_sendall w1)\<rparr>)
                    in (case r of
                          None \<Rightarrow> (Inr True, False, m2, j, w2)
                        | Some e \<Rightarrow> send_except_test E e m2 (j, w2))))))"

text \<open>\<^verbatim>\<open>connect\<close> before its started message.\<close>

definition connect_prepare :: "env \<Rightarrow> job \<times> io \<Rightarrow> job \<times> io" where
  "connect_prepare E jw =
     (case do_connect E jw of
        (Inl e, jw1) \<Rightarrow> jw1
      | (Inr v, j1, w1) \<Rightarrow> snd (start_heartbeat E (j1\<lparr>running := True, connected := True\<rparr>, w1)))"

datatype thread = MainThread | HeartbeatThread | ReconnectThread nat

text \<open>
  Where a reconnection thread stands: before \<^verbatim>\<open>_try_reconnect\<close> takes its lock;
  at the head of the loop with the attempts left; after the connect of an attempt
  has returned; before the started message of that attempt; between the test and
  the store inside that send; before the line that reports the outcome; before the
  store that clears \<^verbatim>\<open>_reconnect_thread\<close>.
\<close>

datatype rpc =
    R_entry
  | R_loop "nat list"
  | R_connected nat "nat list"
  | R_started nat "nat list"
  | R_spawn nat "nat list"
  | R_report bool
  | R_clear

record sys =
  obj :: job
  world :: io
  send_lock :: "thread option"
  reconnect_lock :: "nat option"
  rthreads :: "nat \<Rightarrow> rpc option"

definition sys0 :: "job \<Rightarrow> sys" where
  "sys0 j = \<lparr>obj = j, world = io0, send_lock = None, reconnect_lock = None, rthreads = (\<lambda>t. None)\<rparr>"

text \<open>
  Where a reconnection thread goes after a step that may raise: on, or to its end
  when an exception leaves \<^verbatim>\<open>_reconnect_loop\<close>. The thread that a start has
  created runs when the start has returned. A thread that ends inside
  \<^verbatim>\<open>_try_reconnect\<close> releases the lock of that procedure.
\<close>

fun goes_on :: "exc option \<Rightarrow> rpc \<Rightarrow> rpc option" where
  "goes_on None pc = Some pc"
| "goes_on (Some x) pc = None"

fun started_thread :: "exc option \<Rightarrow> rpc option" where
  "started_thread None = Some R_entry"
| "started_thread (Some x) = None"

fun kept_lock :: "exc option \<Rightarrow> nat option \<Rightarrow> nat option" where
  "kept_lock None l = l"
| "kept_lock (Some x) l = None"

text \<open>
  One step of one thread. The main thread and the heartbeat thread may send any
  event at any time; the order of the main thread's calls is not fixed. A send
  needs \<^verbatim>\<open>_lock\<close> free, and keeps it between its test and its store.
\<close>

inductive step :: "env \<Rightarrow> sys \<Rightarrow> sys \<Rightarrow> bool" for E :: env where
  main_connect:
    "connect_prepare E (obj s, world s) = (j', w') \<Longrightarrow>
     step E s (s\<lparr>obj := j', world := w'\<rparr>)"
| main_disconnect:
    "disconnect (obj s, world s) = (r, j', w') \<Longrightarrow>
     step E s (s\<lparr>obj := j', world := w'\<rparr>)"
| send_test:
    "send_lock s = None \<Longrightarrow> t \<in> {MainThread, HeartbeatThread} \<Longrightarrow>
     send_critical E (event_msg ev) (obj s, world s) = (r, sp, m', j', w') \<Longrightarrow>
     step E s (s\<lparr>obj := j', world := w', send_lock := (if sp then Some t else None)\<rparr>)"
| send_spawn:
    "send_lock s = Some t \<Longrightarrow> t \<in> {MainThread, HeartbeatThread} \<Longrightarrow>
     start_reconnect_thread E (obj s, world s) = (r, j', w') \<Longrightarrow>
     step E s (s\<lparr>obj := j', world := w', send_lock := None,
                  rthreads := (rthreads s)(n_thread (world s) := started_thread r)\<rparr>)"
| heartbeat_sleep:
    "py_sleep (heartbeat_interval (obj s)) (world s) = (r, w') \<Longrightarrow>
     step E s (s\<lparr>world := w'\<rparr>)"
| reconnect_entry_connected:
    "rthreads s t = Some R_entry \<Longrightarrow> reconnect_lock s = None \<Longrightarrow> connected (obj s) \<Longrightarrow>
     step E s (s\<lparr>rthreads := (rthreads s)(t := Some (R_report True))\<rparr>)"
| reconnect_entry:
    "rthreads s t = Some R_entry \<Longrightarrow> reconnect_lock s = None \<Longrightarrow> \<not> connected (obj s) \<Longrightarrow>
     print_stderr E AttemptingReconnect (world s) = (r, w') \<Longrightarrow>
     step E s (s\<lparr>world := w', reconnect_lock := kept_lock r (Some t),
                  rthreads := (rthreads s)
                    (t := goes_on r (R_loop [0..<nat (max_reconnect_attempts (obj s))]))\<rparr>)"
| reconnect_exhausted:
    "rthreads s t = Some (R_loop []) \<Longrightarrow>
     print_stderr E (FailedToReconnectAfter (max_reconnect_attempts (obj s))) (world s) = (r, w') \<Longrightarrow>
     step E s (s\<lparr>world := w', reconnect_lock := None,
                  rthreads := (rthreads s)(t := goes_on r (R_report False))\<rparr>)"
| reconnect_attempt_ok:
    "rthreads s t = Some (R_loop (a # rest)) \<Longrightarrow>
     attempt_connect E (obj s, world s) = (Inr v, j', w') \<Longrightarrow>
     step E s (s\<lparr>obj := j', world := w', rthreads := (rthreads s)(t := Some (R_connected a rest))\<rparr>)"
| reconnect_attempt_except:
    "rthreads s t = Some (R_loop (a # rest)) \<Longrightarrow>
     attempt_connect E (obj s, world s) = (Inl e, jw1) \<Longrightarrow>
     attempt_except E a e jw1 = (r, j', w') \<Longrightarrow>
     step E s (s\<lparr>obj := j', world := w', reconnect_lock := kept_lock r (reconnect_lock s),
                  rthreads := (rthreads s)(t := goes_on r (R_loop rest))\<rparr>)"
| reconnect_mark:
    "rthreads s t = Some (R_connected a rest) \<Longrightarrow>
     mark_reconnected E a (obj s, world s) = (None, j', w') \<Longrightarrow>
     step E s (s\<lparr>obj := j', world := w', rthreads := (rthreads s)(t := Some (R_started a rest))\<rparr>)"
| reconnect_mark_except:
    "rthreads s t = Some (R_connected a rest) \<Longrightarrow>
     mark_reconnected E a (obj s, world s) = (Some e, jw1) \<Longrightarrow>
     attempt_except E a e jw1 = (r, j', w') \<Longrightarrow>
     step E s (s\<lparr>obj := j', world := w', reconnect_lock := kept_lock r (reconnect_lock s),
                  rthreads := (rthreads s)(t := goes_on r (R_loop rest))\<rparr>)"
| reconnect_started:
    "rthreads s t = Some (R_started a rest) \<Longrightarrow> send_lock s = None \<Longrightarrow>
     send_critical E [(''type'', PStr ''started'')] (obj s, world s) = (Inr b, False, m', j', w') \<Longrightarrow>
     step E s (s\<lparr>obj := j', world := w', reconnect_lock := None,
                  rthreads := (rthreads s)(t := Some (R_report True))\<rparr>)"
| reconnect_started_test:
    "rthreads s t = Some (R_started a rest) \<Longrightarrow> send_lock s = None \<Longrightarrow>
     send_critical E [(''type'', PStr ''started'')] (obj s, world s) = (r, True, m', j', w') \<Longrightarrow>
     step E s (s\<lparr>obj := j', world := w', send_lock := Some (ReconnectThread t),
                  rthreads := (rthreads s)(t := Some (R_spawn a rest))\<rparr>)"
| reconnect_started_except:
    "rthreads s t = Some (R_started a rest) \<Longrightarrow> send_lock s = None \<Longrightarrow>
     send_critical E [(''type'', PStr ''started'')] (obj s, world s) = (Inl e, False, m', jw1) \<Longrightarrow>
     attempt_except E a e jw1 = (r, j', w') \<Longrightarrow>
     step E s (s\<lparr>obj := j', world := w', reconnect_lock := kept_lock r (reconnect_lock s),
                  rthreads := (rthreads s)(t := goes_on r (R_loop rest))\<rparr>)"
| reconnect_started_spawn:
    "rthreads s t = Some (R_spawn a rest) \<Longrightarrow> send_lock s = Some (ReconnectThread t) \<Longrightarrow>
     start_reconnect_thread E (obj s, world s) = (None, j', w') \<Longrightarrow>
     step E s (s\<lparr>obj := j', world := w', send_lock := None, reconnect_lock := None,
                  rthreads := (rthreads s)(t := Some (R_report True),
                                            n_thread (world s) := Some R_entry)\<rparr>)"
| reconnect_started_spawn_except:
    "rthreads s t = Some (R_spawn a rest) \<Longrightarrow> send_lock s = Some (ReconnectThread t) \<Longrightarrow>
     start_reconnect_thread E (obj s, world s) = (Some e, jw1) \<Longrightarrow>
     attempt_except E a e jw1 = (r, j', w') \<Longrightarrow>
     step E s (s\<lparr>obj := j', world := w', send_lock := None,
                  reconnect_lock := kept_lock r (reconnect_lock s),
                  rthreads := (rthreads s)(t := goes_on r (R_loop rest))\<rparr>)"
| reconnect_report:
    "rthreads s t = Some (R_report ok) \<Longrightarrow>
     print_stderr E (if ok then ReconnectionSuccessful else ReconnectionFailed) (world s) = (r, w') \<Longrightarrow>
     step E s (s\<lparr>world := w', rthreads := (rthreads s)(t := goes_on r R_clear)\<rparr>)"
| reconnect_clear:
    "rthreads s t = Some R_clear \<Longrightarrow>
     step E s (s\<lparr>obj := (obj s)\<lparr>reconnect_thread := None\<rparr>, rthreads := (rthreads s)(t := None)\<rparr>)"

text \<open>The states a job built by \<^verbatim>\<open>__init__\<close> can reach.\<close>

inductive reachable :: "env \<Rightarrow> job \<Rightarrow> sys \<Rightarrow> bool" for E :: env and j0 :: job where
  reach_start: "j0 = init jid nm dat path hb ri mra \<Longrightarrow> reachable E j0 (sys0 j0)"
| reach_step: "reachable E j0 s \<Longrightarrow> step E s s' \<Longrightarrow> reachable E j0 s'"

text \<open>The reconnection threads that have been started and have not ended.\<close>

definition live :: "sys \<Rightarrow> nat set" where
  "live s = {t. rthreads s t \<noteq> None}"

section \<open>Example worlds\<close>

text \<open>
  A job as \<^verbatim>\<open>run_job\<close> builds it for the payload
  \<^verbatim>\<open>{"jobId":"j1","name":"demo","data":{"steps":2},"socketPath":"/tmp/x.sock"}\<close>,
  and the same job once \<^verbatim>\<open>connect\<close> has stored a socket and set its flags.
\<close>

definition ex_job :: job where
  "ex_job = init (PStr ''j1'') (PStr ''demo'') (PDict [(''steps'', PInt 2)]) (PStr ''/tmp/x.sock'')
              default_heartbeat_interval default_reconnect_interval default_max_reconnect_attempts"

definition ex_up :: job where
  "ex_up = ex_job\<lparr>socket := Some (Sock AF_UNIX 0), heartbeat_thread := Some 0,
                   running := True, connected := True\<rparr>"

definition ex_io :: io where
  "ex_io = \<lparr>n_create = 1, n_connect = 1, n_sendall = 1, n_time = 1, n_thread = 1, n_print = 0,
            trace = [SocketNew AF_UNIX None,
                     Connect (Sock AF_UNIX 0) (UnixAddr ''/tmp/x.sock'') None,
                     ThreadStart HeartbeatLoop 0,
                     Sendall (Sock AF_UNIX 0)
                       (Line (JsonText (started_doc (PStr ''j1'') 1700000000000))) None]\<rparr>"

text \<open>
  A world where every call succeeds, and one where every write meets a broken
  pipe. The interpreter converts integers of up to 4300 digits and the encoder
  enters a thousand levels of containers.
\<close>

definition ex_env :: env where
  "ex_env = \<lparr>sock_create = (\<lambda>n. None), sock_connect = (\<lambda>n. None), sock_sendall = (\<lambda>n. None),
             time_time = (\<lambda>n. 1700000000 + of_nat n), int_of_str = (\<lambda>s. None),
             json_loads = (\<lambda>s. Inl (Exc JSONDecodeError ''Expecting value'')),
             stdin_readline = [], environ = (\<lambda>k. None), format_exc = (\<lambda>e. ''Traceback''),
             stderr_print = (\<lambda>n. None), thread_start = (\<lambda>n. None),
             int_max_str_digits = 4300, max_nesting = 1000\<rparr>"

definition ex_env_broken :: env where
  "ex_env_broken = ex_env\<lparr>sock_sendall := (\<lambda>n. Some (Exc BrokenPipeError ''Broken pipe''))\<rparr>"

text \<open>
  The connected job after it has lost its link; a world where the first two
  connection attempts after the initial one are refused; and a world where every
  write meets a broken pipe and every connection attempt is refused.
\<close>

definition ex_down :: job where
  "ex_down = ex_up\<lparr>connected := False\<rparr>"


definition ex_env_refused :: env where
  "ex_env_refused =
     ex_env_broken\<lparr>sock_connect := (\<lambda>n. Some (Exc ConnectionRefusedError ''Connection refused''))\<rparr>"

text \<open>
  A run that exhausts a reconnection: a connected job limited to two attempts,
  its state after a send has met the broken pipe, and its state after the
  reconnection thread started by that send has run to its end.
\<close>

definition ex_up2 :: job where
  "ex_up2 = ex_up\<lparr>max_reconnect_attempts := 2\<rparr>"

definition ex_lost :: "job \<times> io" where
  "ex_lost = snd (snd (send_message ex_env_refused [(''type'', PStr ''heartbeat'')] (ex_up2, ex_io)))"

definition ex_given_up :: "job \<times> io" where
  "ex_given_up = snd (try_reconnect ex_env_refused ex_lost)"

definition ex_exhausted :: "job \<times> io" where
  "ex_exhausted = snd (reconnect_loop ex_env_refused ex_lost)"

text \<open>
  A world that hands \<^verbatim>\<open>run_job\<close> a payload line, and two handlers: the one of
  the module's docstring, which reports progress twice and returns a result, and
  one that raises.
\<close>

definition ex_payload_line :: string where
  \<open>ex_payload_line = ''{"jobId":"j1","name":"demo","data":{"steps":2},"socketPath":"/tmp/x.sock"}''\<close>

definition ex_env_job :: env where
  "ex_env_job =
     ex_env\<lparr>stdin_readline := ex_payload_line,
            json_loads := (\<lambda>s. if s = ex_payload_line
               then Inr (PDict [(''jobId'', PStr ''j1''), (''name'', PStr ''demo''),
                                (''data'', PDict [(''steps'', PInt 2)]),
                                (''socketPath'', PStr ''/tmp/x.sock'')])
               else Inl (Exc JSONDecodeError ''Expecting value''))\<rparr>"





text \<open>
  The threads of the example job in the world of broken pipes, after the main
  thread has connected, its started message has met the broken pipe, and the
  reconnection thread has been started.
\<close>

definition ex_sys_connected :: sys where
  "ex_sys_connected =
     (sys0 ex_job)\<lparr>obj := fst (connect_prepare ex_env_broken (ex_job, io0)),
                    world := snd (connect_prepare ex_env_broken (ex_job, io0))\<rparr>"

definition ex_sys_lost :: sys where
  "ex_sys_lost =
     ex_sys_connected
       \<lparr>obj := fst (snd (snd (snd (send_critical ex_env_broken (event_msg Started)
                 (obj ex_sys_connected, world ex_sys_connected))))),
        world := snd (snd (snd (snd (send_critical ex_env_broken (event_msg Started)
                 (obj ex_sys_connected, world ex_sys_connected))))),
        send_lock := Some MainThread\<rparr>"

definition ex_sys_reconnecting :: sys where
  "ex_sys_reconnecting =
     ex_sys_lost
       \<lparr>obj := fst (snd (start_reconnect_thread ex_env_broken (obj ex_sys_lost, world ex_sys_lost))),
        world := snd (snd (start_reconnect_thread ex_env_broken (obj ex_sys_lost, world ex_sys_lost))),
        send_lock := None,
        rthreads := (rthreads ex_sys_lost)(n_thread (world ex_sys_lost) := Some R_entry)\<rparr>"

section \<open>Properties of sending\<close>

lemma first_error_in: "first_error rs = Some e \<Longrightarrow> Some e \<in> set rs"
  by (induction rs rule: first_error.induct) auto

text \<open>What \<open>json_dumps\<close> raises is caught by the second \<^verbatim>\<open>except\<close> clause.\<close>

lemma dumps_error_class: "dumps_error E d v = Some e \<Longrightarrow> is_Exception e \<and> \<not> is_OSError e"
proof (induction E d v arbitrary: e rule: dumps_error.induct)
  case (2 E d xs)
  then show ?case by (auto dest!: first_error_in split: if_splits)
next
  case (3 E d kvs)
  then show ?case by (auto dest!: first_error_in split: if_splits)
qed (auto split: if_splits)

lemma json_dumps_Inl: "json_dumps E v = Inl e \<Longrightarrow> is_Exception e \<and> \<not> is_OSError e"
  by (auto simp: json_dumps_def dumps_error_class split: option.splits)

lemma json_dumps_Inr: "json_dumps E v = Inr d \<Longrightarrow> d = JsonText v"
  by (auto simp: json_dumps_def split: option.splits)

text \<open>
  The print and the thread start that a send may reach from a world return: the
  next \<^verbatim>\<open>print\<close> to \<^verbatim>\<open>sys.stderr\<close> and the start of the next thread raise
  nothing.
\<close>

lemma diagnostics_ok_at: "diagnostics_ok E \<Longrightarrow> diagnostics_ok_at E w"
  by (simp add: diagnostics_ok_def diagnostics_ok_at_def)

lemma diagnostics_ok_at_sent [simp]:
  "diagnostics_ok_at E (emit a (w\<lparr>n_sendall := k\<rparr>)) = diagnostics_ok_at E w"
  "diagnostics_ok_at E (w\<lparr>n_time := k\<rparr>) = diagnostics_ok_at E w"
  by (simp_all add: diagnostics_ok_at_def emit_def)

lemma print_stderr_ok: "diagnostics_ok E \<Longrightarrow> print_stderr E l w = (None, printed l w)"
  by (simp add: diagnostics_ok_def)

lemma start_reconnect_thread_ok:
  "diagnostics_ok E \<Longrightarrow>
   start_reconnect_thread E (j, w) =
     (None, j\<lparr>reconnect_thread := Some (n_thread w)\<rparr>,
      emit (ThreadStart ReconnectLoop (n_thread w)) (w\<lparr>n_thread := Suc (n_thread w)\<rparr>))"
  by (simp add: diagnostics_ok_def Let_def)

lemma send_except_OSError:
  "diagnostics_ok_at E w \<Longrightarrow> is_OSError e \<Longrightarrow> fst (send_except E e m (j, w)) = Inr False"
  by (simp add: diagnostics_ok_at_def Let_def printed_def emit_def)

lemma send_except_Exception:
  "diagnostics_ok_at E w \<Longrightarrow> is_Exception e \<Longrightarrow> fst (send_except E e m (j, w)) = Inr False"
  by (simp add: diagnostics_ok_at_def Let_def printed_def emit_def)



text \<open>
  The encoder in the example worlds: the integers of the examples are within the
  digit limit.
\<close>

lemma int_fits:
  assumes n: "int_max_str_digits E = 4300" and i: "\<bar>i\<bar> < 10000000000000000"
  shows "int_too_long E i = False"
proof -
  have a: "(10::int) ^ 16 \<le> 10 ^ int_max_str_digits E"
    unfolding n by (rule power_increasing) simp_all
  have b: "(10::int) ^ 16 = 10000000000000000" by simp
  from i a b have "\<bar>i\<bar> < 10 ^ int_max_str_digits E" by (simp only: less_le_trans)
  then show ?thesis by (simp only: int_too_long_def not_le [symmetric] simp_thms)
qed

lemmas ex_defs = ex_up_def ex_up2_def ex_down_def ex_job_def init_def ex_io_def ex_env_def
  ex_env_broken_def ex_env_refused_def default_heartbeat_interval_def default_reconnect_interval_def
  default_max_reconnect_attempts_def

lemma py_int_numeral [simp]: "py_int (numeral k) = numeral k"
  by (simp add: py_int_def)


lemma send_message_None: "socket j = None \<Longrightarrow> send_message E m (j, w) = (Inr False, m, j, w)"
  by simp

lemma send_message_stamped:
  "socket j \<noteq> None \<Longrightarrow> fst (snd (send_message E m (j, w))) = stamped E m (j, w)"
  by (auto simp: Let_def stamped_def split: option.splits sum.splits)



text \<open>
  Where the hypothesis of the two properties above ends: on a broken pipe in a
  world whose error stream is closed, the \<^verbatim>\<open>print\<close> of the \<^verbatim>\<open>except\<close> clause
  raises, and its exception leaves the send with \<^verbatim>\<open>_connected\<close> still set.
\<close>

lemma send_message_print_raises:
  "send_message (ex_env_broken\<lparr>stderr_print := (\<lambda>n. Some (Exc BrokenPipeError ''Broken pipe''))\<rparr>)
      [(''type'', PStr ''heartbeat'')] (ex_up, ex_io) =
     (Inl (Exc BrokenPipeError ''Broken pipe''),
      stamped ex_env_broken [(''type'', PStr ''heartbeat'')] (ex_up, ex_io),
      ex_up,
      emit (Sendall (Sock AF_UNIX 0)
              (Line (JsonText (PDict (stamped ex_env_broken [(''type'', PStr ''heartbeat'')] (ex_up, ex_io)))))
              (Some (Exc BrokenPipeError ''Broken pipe'')))
        (ex_io\<lparr>n_time := 2, n_sendall := 2, n_print := 1\<rparr>))"
  by (simp add: ex_defs stamped_def json_dumps_def int_fits Let_def emit_def)

section \<open>Encoding\<close>

lemma first_error_None: "first_error rs = None \<longleftrightarrow> (\<forall>r\<in>set rs. r = None)"
  by (induction rs rule: first_error.induct) auto

lemma max_list_le: "a + max_list ns \<le> b \<longleftrightarrow> a \<le> b \<and> (\<forall>n\<in>set ns. a + n \<le> b)"
  by (induction ns) auto

text \<open>
  The encoder, which counts the levels it has entered, raises nothing exactly on
  the values that are well formed for the levels left.
\<close>

lemma dumps_error_None:
  "dumps_error E d v = None \<longleftrightarrow>
     json_typed v \<and> ints_fit E v \<and> (nesting v = 0 \<or> d + nesting v \<le> max_nesting E)"
proof (induction E d v rule: dumps_error.induct)
  case (2 E d xs)
  show ?case
  proof (cases "max_nesting E \<le> d")
    case True
    then show ?thesis by simp
  next
    case False
    then have le: "Suc d \<le> max_nesting E" by simp
    have "dumps_error E d (PList xs) = None \<longleftrightarrow> (\<forall>x\<in>set xs. dumps_error E (Suc d) x = None)"
      using False by (auto simp: first_error_None)
    also have "\<dots> \<longleftrightarrow> (\<forall>x\<in>set xs. json_typed x \<and> ints_fit E x \<and> Suc d + nesting x \<le> max_nesting E)"
      using 2 False le by auto
    also have "\<dots> \<longleftrightarrow> json_typed (PList xs) \<and> ints_fit E (PList xs) \<and>
                 d + nesting (PList xs) \<le> max_nesting E"
      using le max_list_le [of "Suc d" "map nesting xs" "max_nesting E"]
      by (auto simp: list_all_iff)
    finally show ?thesis by simp
  qed
next
  case (3 E d kvs)
  show ?case
  proof (cases "max_nesting E \<le> d")
    case True
    then show ?thesis by simp
  next
    case False
    then have le: "Suc d \<le> max_nesting E" by simp
    have "dumps_error E d (PDict kvs) = None \<longleftrightarrow> (\<forall>kv\<in>set kvs. dumps_error E (Suc d) (snd kv) = None)"
      using False by (auto simp: first_error_None)
    also have "\<dots> \<longleftrightarrow> (\<forall>kv\<in>set kvs. json_typed (snd kv) \<and> ints_fit E (snd kv) \<and>
                  Suc d + nesting (snd kv) \<le> max_nesting E)"
      using 3 False le by auto
    also have "\<dots> \<longleftrightarrow> json_typed (PDict kvs) \<and> ints_fit E (PDict kvs) \<and>
                 d + nesting (PDict kvs) \<le> max_nesting E"
      using le max_list_le [of "Suc d" "map (\<lambda>kv. nesting (snd kv)) kvs" "max_nesting E"]
      by (auto simp: list_all_iff)
    finally show ?thesis by simp
  qed
qed simp_all

lemma well_formed_dumps: "well_formed E v \<longleftrightarrow> dumps_error E 0 v = None"
  by (auto simp: dumps_error_None well_formed_def)

lemma well_formed_json_dumps: "well_formed E v \<Longrightarrow> json_dumps E v = Inr (JsonText v)"
  by (simp add: well_formed_dumps json_dumps_def)

lemma not_well_formed_dumps: "\<not> well_formed E v \<Longrightarrow> \<exists>e. dumps_error E 0 v = Some e"
  using well_formed_dumps [of E v] by (cases "dumps_error E 0 v") auto

lemma new_actions_emit_first:
  "trace w' = trace w @ a # as \<Longrightarrow> new_actions w w' = a # as"
  by (simp add: new_actions_def)

text \<open>
  C5, as the code has it. The specification has an unencodable payload make the
  send raise an \<^verbatim>\<open>EncodingError\<close>. The module has no such error: the encoder's
  exception is caught by the \<^verbatim>\<open>except Exception\<close> clause. Here a completion whose
  result is a dictionary that contains itself is sent on a working link, in a world
  whose prints return, and the send returns \<open>False\<close>.
\<close>

theorem cyclic_payload_counterexample:
  "send_message ex_env (complete_msg (PDict [(''self'', PCycle)])) (ex_up, ex_io) =
     (Inr False,
      stamped ex_env (complete_msg (PDict [(''self'', PCycle)])) (ex_up, ex_io),
      ex_up,
      printed (FailedToSend (Exc ValueError ''Circular reference detected''))
        (ex_io\<lparr>n_time := Suc (n_time ex_io)\<rparr>))"
  by (simp add: complete_msg_def stamped_def ex_defs json_dumps_def int_fits Let_def)

text \<open>
  C5, amended. A stamped message is well formed when it holds values of the JSON
  types only (no cycle, no object unknown to the encoder), every integer in it is
  within the interpreter's digit limit and its nesting is within the depth the
  encoder enters. Encoding a well-formed message raises nothing: the first thing
  the send does is to hand the whole line of the message to \<^verbatim>\<open>sendall\<close>. When
  the stamped message is not well formed, and the print of the \<^verbatim>\<open>except\<close>
  clause returns, the send raises nothing either: it returns \<open>False\<close>, prints the
  encoder's exception to the error stream, gives nothing to the transport and
  leaves the job object as it was.
\<close>

theorem unencodable_message_returns_False:
  "(socket j = Some s \<and> well_formed E (PDict (stamped E m (j, w))) \<longrightarrow>
      (\<exists>rest. new_actions w (snd (snd (snd (send_message E m (j, w))))) =
           Sendall s (Line (JsonText (PDict (stamped E m (j, w))))) (sock_sendall E (n_sendall w)) # rest)) \<and>
   (diagnostics_ok_at E w \<and> socket j \<noteq> None \<and> \<not> well_formed E (PDict (stamped E m (j, w))) \<longrightarrow>
      (\<exists>e. is_Exception e \<and>
           send_message E m (j, w) =
             (Inr False, stamped E m (j, w), j,
              printed (FailedToSend e) (w\<lparr>n_time := Suc (n_time w)\<rparr>))))"
proof (intro conjI impI)
  assume h: "socket j = Some s \<and> well_formed E (PDict (stamped E m (j, w)))"
  then have d: "json_dumps E (PDict (stamped E m (j, w))) = Inr (JsonText (PDict (stamped E m (j, w))))"
    by (simp add: well_formed_json_dumps)
  have "\<exists>rest. trace (snd (snd (snd (send_message E m (j, w))))) =
          trace w @ Sendall s (Line (JsonText (PDict (stamped E m (j, w))))) (sock_sendall E (n_sendall w)) # rest"
    using h d unfolding stamped_def
    by (auto simp: Let_def emit_def printed_def split: option.splits)
  then show "\<exists>rest. new_actions w (snd (snd (snd (send_message E m (j, w))))) =
           Sendall s (Line (JsonText (PDict (stamped E m (j, w))))) (sock_sendall E (n_sendall w)) # rest"
    by (auto simp: new_actions_def)
next
  assume h: "diagnostics_ok_at E w \<and> socket j \<noteq> None \<and> \<not> well_formed E (PDict (stamped E m (j, w)))"
  then obtain e where e: "dumps_error E 0 (PDict (stamped E m (j, w))) = Some e"
    using not_well_formed_dumps by blast
  then have c: "is_Exception e \<and> \<not> is_OSError e" by (rule dumps_error_class)
  from h obtain s where s: "socket j = Some s" by auto
  from h have p: "stderr_print E (n_print w) = None" by (simp add: diagnostics_ok_at_def)
  have "send_message E m (j, w) =
      (Inr False, stamped E m (j, w), j, printed (FailedToSend e) (w\<lparr>n_time := Suc (n_time w)\<rparr>))"
    using e c s p unfolding stamped_def
    by (simp add: Let_def json_dumps_def printed_def del: dumps_error.simps)
  with c show "\<exists>e. is_Exception e \<and>
           send_message E m (j, w) =
             (Inr False, stamped E m (j, w), j,
              printed (FailedToSend e) (w\<lparr>n_time := Suc (n_time w)\<rparr>))" by blast
qed

theorem unencodable_message_returns_False_witness:
  "(\<exists>rest. new_actions ex_io (snd (snd (snd (send_message ex_env_broken (complete_msg (PInt 2)) (ex_up, ex_io))))) =
        Sendall (Sock AF_UNIX 0)
          (Line (JsonText (PDict (stamped ex_env_broken (complete_msg (PInt 2)) (ex_up, ex_io)))))
          (sock_sendall ex_env_broken (n_sendall ex_io)) # rest) \<and>
   (\<exists>e. is_Exception e \<and>
        send_message ex_env (complete_msg (PObject ''set'')) (ex_up, ex_io) =
          (Inr False, stamped ex_env (complete_msg (PObject ''set'')) (ex_up, ex_io), ex_up,
           printed (FailedToSend e) (ex_io\<lparr>n_time := Suc (n_time ex_io)\<rparr>)))"
proof -
  have h1: "socket ex_up = Some (Sock AF_UNIX 0) \<and>
            well_formed ex_env_broken (PDict (stamped ex_env_broken (complete_msg (PInt 2)) (ex_up, ex_io)))"
    by (simp add: ex_defs stamped_def complete_msg_def well_formed_def int_fits)
  have h2: "diagnostics_ok_at ex_env ex_io \<and> socket ex_up \<noteq> None \<and>
            \<not> well_formed ex_env (PDict (stamped ex_env (complete_msg (PObject ''set'')) (ex_up, ex_io)))"
    by (simp add: ex_up_def stamped_def complete_msg_def well_formed_def diagnostics_ok_at_def ex_env_def)
  from h1 unencodable_message_returns_False [of ex_up "Sock AF_UNIX 0" ex_env_broken
      "complete_msg (PInt 2)" ex_io]
  have c1: "\<exists>rest. new_actions ex_io (snd (snd (snd (send_message ex_env_broken (complete_msg (PInt 2)) (ex_up, ex_io))))) =
        Sendall (Sock AF_UNIX 0)
          (Line (JsonText (PDict (stamped ex_env_broken (complete_msg (PInt 2)) (ex_up, ex_io)))))
          (sock_sendall ex_env_broken (n_sendall ex_io)) # rest"
    by blast
  from h2 unencodable_message_returns_False [of ex_up "Sock AF_UNIX 0" ex_env
      "complete_msg (PObject ''set'')" ex_io]
  have c2: "\<exists>e. is_Exception e \<and>
        send_message ex_env (complete_msg (PObject ''set'')) (ex_up, ex_io) =
          (Inr False, stamped ex_env (complete_msg (PObject ''set'')) (ex_up, ex_io), ex_up,
           printed (FailedToSend e) (ex_io\<lparr>n_time := Suc (n_time ex_io)\<rparr>))"
    by blast
  from c1 c2 show ?thesis by blast
qed

text \<open>
  The other values the encoder refuses, in the module's worlds as in the
  interpreter: an integer of more digits than the limit, and containers nested
  deeper than the encoder enters.
\<close>

lemma long_int_not_well_formed:
  "int_max_str_digits E \<noteq> 0 \<Longrightarrow> \<not> well_formed E (PInt (10 ^ int_max_str_digits E))"
  by (simp add: well_formed_def int_too_long_def)

lemma deep_list_not_well_formed:
  "max_nesting E < nesting v \<Longrightarrow> \<not> well_formed E v"
  by (simp add: well_formed_def)

section \<open>The fields of an event\<close>

lemma map_of_stamped:
  "map_of (stamped E m jw) k =
     (if k = ''timestamp'' then Some (PInt (py_int (time_time E (n_time (snd jw)) * 1000)))
      else if k = ''jobId'' then Some (job_id (fst jw)) else map_of m k)"
  by (simp add: stamped_def update_conv')

text \<open>
  C6, as the code has it. The specification has \<open>message\<close> appear on a log event
  only when it is not empty. \<^verbatim>\<open>log\<close> puts its message into the dictionary without a
  test: an empty message is there.
\<close>

theorem empty_log_message_counterexample:
  "map_of (log_msg ''info'' [] []) ''message'' = Some (PStr [])"
  by (simp add: log_msg_def)

text \<open>
  C6, amended. In the document of every event: \<open>message\<close> is present on a progress
  event exactly when a non-empty message was given, on a log event always (empty or
  not), and on no other event; \<open>data\<close> is present on progress and log events exactly
  when extra keyword arguments were given; \<open>result\<close> is present on a completed event
  exactly when the result is not \<^verbatim>\<open>None\<close>; \<open>stack\<close> is present on a failed event
  exactly when a non-empty stack was given.
\<close>

theorem optional_field_presence:
  "map_of (stamped E (event_msg ev) jw) ''message'' =
     (case ev of
        Progress percent message kw \<Rightarrow> if str_truthy message then Some (PStr (the message)) else None
      | Log level message kw \<Rightarrow> Some (PStr message)
      | _ \<Rightarrow> None) \<and>
   map_of (stamped E (event_msg ev) jw) ''data'' =
     (case ev of
        Progress percent message kw \<Rightarrow> if kw \<noteq> [] then Some (PDict kw) else None
      | Log level message kw \<Rightarrow> if kw \<noteq> [] then Some (PDict kw) else None
      | _ \<Rightarrow> None) \<and>
   map_of (stamped E (event_msg ev) jw) ''result'' =
     (case ev of Completed result \<Rightarrow> if result \<noteq> PNone then Some result else None | _ \<Rightarrow> None) \<and>
   map_of (stamped E (event_msg ev) jw) ''stack'' =
     (case ev of Failed err stack \<Rightarrow> if str_truthy stack then Some (PStr (the stack)) else None | _ \<Rightarrow> None)"
  by (cases ev)
     (simp_all add: map_of_stamped progress_msg_def log_msg_def complete_msg_def fail_msg_def
                    Let_def update_conv')

theorem optional_field_presence_witness:
  "map_of (stamped ex_env (event_msg (Progress (PInt 50) (Some []) [(''step'', PInt 1)])) (ex_up, ex_io))
      ''message'' = None \<and>
   map_of (stamped ex_env (event_msg (Progress (PInt 50) (Some []) [(''step'', PInt 1)])) (ex_up, ex_io))
      ''data'' = Some (PDict [(''step'', PInt 1)]) \<and>
   map_of (stamped ex_env (event_msg (Progress (PInt 50) (Some []) [(''step'', PInt 1)])) (ex_up, ex_io))
      ''result'' = None \<and>
   map_of (stamped ex_env (event_msg (Progress (PInt 50) (Some []) [(''step'', PInt 1)])) (ex_up, ex_io))
      ''stack'' = None"
  using optional_field_presence [of ex_env "Progress (PInt 50) (Some []) [(''step'', PInt 1)]" "(ex_up, ex_io)"]
  by simp

section \<open>Calls while the link is down\<close>

lemma send_message_trace:
  "\<exists>new. trace (snd (snd (snd (send_message E m (j, w))))) = trace w @ new \<and> (\<forall>a\<in>set new. \<not> waits a)"
  by (auto simp: Let_def emit_def printed_def split: option.splits sum.splits)

lemma send_message_new_actions_wait_free:
  "\<forall>a\<in>set (new_actions w (snd (snd (snd (send_message E m (j, w)))))). \<not> waits a"
  using send_message_trace [of E m j w] by (auto simp: new_actions_def)

lemma link_down_send:
  "diagnostics_ok_at E w \<Longrightarrow> link_down E (j, w) \<Longrightarrow> fst (send_message E m (j, w)) = Inr False"
  by (auto simp: link_down_def Let_def send_except_OSError send_except_Exception
           simp del: send_except.simps dest!: json_dumps_Inl split: option.splits sum.splits)

lemma fst_returns_None: "fst (returns_None r) = (case fst r of Inl e \<Rightarrow> Inl e | Inr b \<Rightarrow> Inr PNone)"
  by (cases r rule: returns_None.cases) auto

lemma snd_returns_None: "snd (returns_None r) = snd (snd r)"
  by (cases r rule: returns_None.cases) auto

text \<open>
  C7, as the code has it. The specification has \<^verbatim>\<open>progress\<close> and \<^verbatim>\<open>log\<close>
  return false while the link is down. Both drop the result of the send and return
  \<^verbatim>\<open>None\<close>, here on a link whose writes meet a broken pipe, in a world whose
  prints return and whose threads start.
\<close>

theorem progress_returns_None_counterexample:
  "link_down ex_env_broken (ex_up, ex_io) \<and>
   diagnostics_ok ex_env_broken \<and>
   fst (progress ex_env_broken (PInt 50) (Some ''Halfway done'') [] (ex_up, ex_io)) = Inr PNone \<and>
   fst (progress ex_env_broken (PInt 50) (Some ''Halfway done'') [] (ex_up, ex_io)) \<noteq> Inr (PBool False) \<and>
   fst (log ex_env_broken ''info'' ''working'' [] (ex_up, ex_io)) = Inr PNone \<and>
   fst (log ex_env_broken ''info'' ''working'' [] (ex_up, ex_io)) \<noteq> Inr (PBool False)"
  by (simp add: link_down_def diagnostics_ok_def progress_def log_def progress_msg_def log_msg_def
        ex_defs json_dumps_def int_fits Let_def emit_def printed_def)

text \<open>
  C7, amended. While the link is down, in a world where the print and the thread
  start of the \<^verbatim>\<open>except\<close> clause return, the send under \<^verbatim>\<open>progress\<close> and
  \<^verbatim>\<open>log\<close> returns \<open>False\<close>, and the two calls themselves return \<^verbatim>\<open>None\<close> and
  raise nothing. In every world nothing they do waits: no sleep, no connection
  attempt and no join is among the actions of the call.
\<close>

theorem progress_log_while_down:
  "(diagnostics_ok_at E (snd jw) \<and> link_down E jw \<longrightarrow>
      fst (send_message E m jw) = Inr False \<and>
      fst (progress E percent message kw jw) = Inr PNone \<and>
      fst (log E level text kw jw) = Inr PNone) \<and>
   (\<forall>a\<in>set (new_actions (snd jw) (snd (snd (progress E percent message kw jw)))). \<not> waits a) \<and>
   (\<forall>a\<in>set (new_actions (snd jw) (snd (snd (log E level text kw jw)))). \<not> waits a)"
proof (cases jw)
  case (Pair j w)
  show ?thesis
    unfolding Pair progress_def log_def
    using send_message_new_actions_wait_free [of w E _ j]
    by (simp add: link_down_send fst_returns_None snd_returns_None del: send_message.simps)
qed

theorem progress_log_while_down_witness:
  "fst (send_message ex_env_broken [(''type'', PStr ''heartbeat'')] (ex_up, ex_io)) = Inr False \<and>
   fst (progress ex_env_broken (PInt 50) (Some ''Halfway done'') [] (ex_up, ex_io)) = Inr PNone \<and>
   fst (log ex_env_broken ''info'' ''working'' [] (ex_up, ex_io)) = Inr PNone \<and>
   filter waits (new_actions (snd (ex_up, ex_io))
        (snd (snd (progress ex_env_broken (PInt 50) (Some ''Halfway done'') [] (ex_up, ex_io))))) = [] \<and>
   filter waits (new_actions (snd (ex_up, ex_io))
        (snd (snd (log ex_env_broken ''info'' ''working'' [] (ex_up, ex_io))))) = []"
proof -
  have h: "diagnostics_ok_at ex_env_broken (snd (ex_up, ex_io)) \<and> link_down ex_env_broken (ex_up, ex_io)"
    by (simp add: link_down_def diagnostics_ok_at_def ex_env_broken_def ex_env_def)
  from h progress_log_while_down [of ex_env_broken "(ex_up, ex_io)" "[(''type'', PStr ''heartbeat'')]"
      "PInt 50" "Some ''Halfway done''" "[]" "''info''" "''working''"]
  show ?thesis unfolding filter_empty_conv by blast
qed

section \<open>What the calls change and add to the trace\<close>

lemma sleeps_append [simp]: "sleeps (xs @ ys) = sleeps xs @ sleeps ys"
  by (induction xs rule: sleeps.induct) auto

lemma failed_attempts_append [simp]: "failed_attempts (xs @ ys) = failed_attempts xs @ failed_attempts ys"
  by (induction xs rule: failed_attempts.induct) auto

lemma successful_attempts_append [simp]:
  "successful_attempts (xs @ ys) = successful_attempts xs @ successful_attempts ys"
  by (induction xs rule: successful_attempts.induct) auto

lemma sent_append [simp]: "sent (xs @ ys) = sent xs @ sent ys"
  by (induction xs rule: sent.induct) auto

lemma growsI: "trace w' = trace w @ new \<Longrightarrow> grows w w' \<and> new_actions w w' = new"
  by (simp add: grows_def new_actions_def)

lemma grows_refl: "grows w w \<and> new_actions w w = []"
  by (simp add: grows_def new_actions_def)

lemma grows_trans:
  "grows w w1 \<Longrightarrow> grows w1 w2 \<Longrightarrow> grows w w2 \<and> new_actions w w2 = new_actions w w1 @ new_actions w1 w2"
  by (metis append.assoc growsI grows_def)

lemma grows_emit:
  assumes "grows w w1"
  shows "grows w (emit a w1) \<and> new_actions w (emit a w1) = new_actions w w1 @ [a]"
proof -
  have "trace (emit a w1) = trace w @ (new_actions w w1 @ [a])"
    using assms by (simp add: grows_def emit_def)
  then show ?thesis by (rule growsI)
qed

lemma trace_printed [simp]: "trace (printed l w) = trace w @ [Stderr l]"
  by (simp add: printed_def emit_def)

lemma grows_printed:
  assumes "grows w w1"
  shows "grows w (printed l w1) \<and> new_actions w (printed l w1) = new_actions w w1 @ [Stderr l]"
proof -
  have "trace (printed l w1) = trace w @ (new_actions w w1 @ [Stderr l])"
    using assms by (simp add: grows_def)
  then show ?thesis by (rule growsI)
qed

lemma mark_reconnected_ok:
  "diagnostics_ok E \<Longrightarrow>
   mark_reconnected E a (j, w) = (None, j\<lparr>connected := True\<rparr>, printed (ReconnectedAfter (a + 1)) w)"
  by (simp add: diagnostics_ok_def)

lemma attempt_failed_ok:
  "diagnostics_ok E \<Longrightarrow>
   attempt_failed E a e (j, w) =
     (if reconnect_interval j < 0
      then (Some (Exc ValueError ''sleep length must be non-negative''), j,
            printed (ReconnectAttemptFailed (a + 1) (max_reconnect_attempts j) e) w)
      else (None, j, emit (Sleep (reconnect_interval j))
                       (printed (ReconnectAttemptFailed (a + 1) (max_reconnect_attempts j) e) w)))"
  by (simp add: diagnostics_ok_def)

text \<open>What a send changes, and what it adds to the trace.\<close>

lemma send_message_frame:
  assumes "send_message E m (j, w) = (r, m', j', w')"
  shows "j' = j\<lparr>connected := connected j', reconnect_thread := reconnect_thread j'\<rparr>"
    and "connected j' \<longrightarrow> connected j"
    and "grows w w'"
    and "sleeps (new_actions w w') = []"
    and "failed_attempts (new_actions w w') = []"
    and "successful_attempts (new_actions w w') = []"
    and "\<forall>a\<in>set (new_actions w w'). \<not> waits a"
    and "sent (new_actions w w') =
           (if socket j \<noteq> None \<and> well_formed E (PDict (stamped E m (j, w)))
            then [PDict (stamped E m (j, w))] else [])"
    and "diagnostics_ok E \<and> r = Inl e \<longrightarrow> \<not> is_Exception e"
    and "connected j' = (connected j \<and> (\<forall>e. Stderr (ConnectionLost e) \<notin> set (new_actions w w')))"
proof -
  have "\<exists>new. trace w' = trace w @ new \<and> sleeps new = [] \<and> failed_attempts new = [] \<and>
           successful_attempts new = [] \<and> (\<forall>a\<in>set new. \<not> waits a) \<and>
           (connected j' = (connected j \<and> (\<forall>e. Stderr (ConnectionLost e) \<notin> set new))) \<and>
           sent new = (if socket j \<noteq> None \<and> well_formed E (PDict (stamped E m (j, w)))
            then [PDict (stamped E m (j, w))] else [])"
    using assms
    by (auto simp: Let_def emit_def printed_def stamped_def json_dumps_def well_formed_dumps
             simp del: dumps_error.simps
             split: option.splits sum.splits if_splits)
  then show "grows w w'"
    and "sleeps (new_actions w w') = []"
    and "failed_attempts (new_actions w w') = []"
    and "successful_attempts (new_actions w w') = []"
    and "\<forall>a\<in>set (new_actions w w'). \<not> waits a"
    and "sent (new_actions w w') =
           (if socket j \<noteq> None \<and> well_formed E (PDict (stamped E m (j, w)))
            then [PDict (stamped E m (j, w))] else [])"
    and "connected j' = (connected j \<and> (\<forall>e. Stderr (ConnectionLost e) \<notin> set (new_actions w w')))"
    using growsI by metis+
  show "j' = j\<lparr>connected := connected j', reconnect_thread := reconnect_thread j'\<rparr>"
    and "connected j' \<longrightarrow> connected j"
    using assms
    by (auto simp: Let_def emit_def printed_def split: option.splits sum.splits if_splits)
  show "diagnostics_ok E \<and> r = Inl e \<longrightarrow> \<not> is_Exception e"
    using assms
    by (auto simp: Let_def diagnostics_ok_def dest!: json_dumps_Inl
             split: option.splits sum.splits if_splits)
qed

lemma stamped_started:
  "stamped E [(''type'', PStr ''started'')] (j, w) =
     [(''type'', PStr ''started''), (''jobId'', job_id j),
      (''timestamp'', PInt (py_int (time_time E (n_time w) * 1000)))]"
  by (simp add: stamped_def)

lemma send_started_frame:
  assumes "send_started E (j, w) = (r, j', w')"
  shows "j' = j\<lparr>connected := connected j', reconnect_thread := reconnect_thread j'\<rparr>"
    and "connected j' \<longrightarrow> connected j"
    and "grows w w'"
    and "sleeps (new_actions w w') = []"
    and "failed_attempts (new_actions w w') = []"
    and "successful_attempts (new_actions w w') = []"
    and "\<forall>a\<in>set (new_actions w w'). \<not> waits a"
    and "sent (new_actions w w') =
           (if socket j \<noteq> None \<and> well_formed E (started_doc (job_id j) (py_int (time_time E (n_time w) * 1000)))
            then [started_doc (job_id j) (py_int (time_time E (n_time w) * 1000))] else [])"
    and "diagnostics_ok E \<and> r = Inl e \<longrightarrow> \<not> is_Exception e"
    and "connected j' = (connected j \<and> (\<forall>e. Stderr (ConnectionLost e) \<notin> set (new_actions w w')))"
proof -
  obtain r0 m0 j0 w0 where s: "send_message E [(''type'', PStr ''started'')] (j, w) = (r0, m0, j0, w0)"
    by (cases "send_message E [(''type'', PStr ''started'')] (j, w)") blast
  have eq: "j' = j0 \<and> w' = w0 \<and> (r = Inl e \<longrightarrow> r0 = Inl e)"
    using assms s unfolding send_started_def by (cases r0) auto
  from send_message_frame [OF s] eq
  show "j' = j\<lparr>connected := connected j', reconnect_thread := reconnect_thread j'\<rparr>"
    and "connected j' \<longrightarrow> connected j"
    and "grows w w'"
    and "sleeps (new_actions w w') = []"
    and "failed_attempts (new_actions w w') = []"
    and "successful_attempts (new_actions w w') = []"
    and "\<forall>a\<in>set (new_actions w w'). \<not> waits a"
    and "diagnostics_ok E \<and> r = Inl e \<longrightarrow> \<not> is_Exception e"
    and "connected j' = (connected j \<and> (\<forall>e. Stderr (ConnectionLost e) \<notin> set (new_actions w w')))"
    by auto
  from send_message_frame(8) [OF s] eq
  show "sent (new_actions w w') =
           (if socket j \<noteq> None \<and> well_formed E (started_doc (job_id j) (py_int (time_time E (n_time w) * 1000)))
            then [started_doc (job_id j) (py_int (time_time E (n_time w) * 1000))] else [])"
    by (simp add: stamped_started started_doc_def)
qed

lemma close_socket_frame:
  assumes "close_socket (j, w) = (j', w')"
  shows "j' = j"
    and "grows w w'"
    and "new_actions w w' = (case socket j of None \<Rightarrow> [] | Some s \<Rightarrow> [Close s])"
  using assms by (auto simp: grows_def new_actions_def emit_def split: option.splits)

lemma do_connect_frame:
  assumes "do_connect E (j, w) = (r, j', w')"
  shows "j' = j\<lparr>socket := socket j'\<rparr>"
    and "grows w w'"
    and "sleeps (new_actions w w') = []"
    and "failed_attempts (new_actions w w') = []"
    and "successful_attempts (new_actions w w') = []"
    and "sent (new_actions w w') = []"
    and "r = Inr v \<longrightarrow> (\<exists>s a pre. socket j' = Some s \<and> new_actions w w' = pre @ [Connect s a None])"
proof -
  show "j' = j\<lparr>socket := socket j'\<rparr>"
    using assms
    by (auto simp: Let_def emit_def split: pyval.splits if_splits option.splits prod.splits sum.splits)
  have "\<exists>new. trace w' = trace w @ new \<and> sleeps new = [] \<and> failed_attempts new = [] \<and>
           successful_attempts new = [] \<and> sent new = [] \<and>
           (r = Inr v \<longrightarrow> (\<exists>s a pre. socket j' = Some s \<and> new = pre @ [Connect s a None]))"
    using assms
    by (auto simp: Let_def emit_def split: pyval.splits if_splits option.splits prod.splits sum.splits)
  then show "grows w w'"
    and "sleeps (new_actions w w') = []"
    and "failed_attempts (new_actions w w') = []"
    and "successful_attempts (new_actions w w') = []"
    and "sent (new_actions w w') = []"
    and "r = Inr v \<longrightarrow> (\<exists>s a pre. socket j' = Some s \<and> new_actions w w' = pre @ [Connect s a None])"
    using growsI by metis+
qed

lemma attempt_try_frame:
  assumes "attempt_try E attempt (j, w) = (r, j', w')" and "\<not> connected j" and "diagnostics_ok E"
  shows "j' = j\<lparr>socket := socket j', connected := connected j', reconnect_thread := reconnect_thread j'\<rparr>"
    and "grows w w'"
    and "sleeps (new_actions w w') = []"
    and "failed_attempts (new_actions w w') = []"
    and "length (successful_attempts (new_actions w w')) \<le> 1"
    and "r = Inl e \<and> is_Exception e \<longrightarrow>
           successful_attempts (new_actions w w') = [] \<and> sent (new_actions w w') = [] \<and> \<not> connected j'"
    and "r = Inr v \<longrightarrow>
           successful_attempts (new_actions w w') = [Suc attempt] \<and>
           (\<exists>hd s ad tl. new_actions w w' = hd @ [Connect s ad None, Stderr (ReconnectedAfter (Suc attempt))] @ tl \<and>
              socket j' = Some s \<and> sent hd = [] \<and> (\<forall>a\<in>set tl. \<not> waits a) \<and>
              (connected j' = (\<forall>e. Stderr (ConnectionLost e) \<notin> set tl)) \<and>
              (\<exists>ts. sent tl = (if well_formed E (started_doc (job_id j) ts)
                  then [started_doc (job_id j) ts]
                  else [])))"
proof -
  obtain j0 w0 where c0: "close_socket (j, w) = (j0, w0)"
    by (cases "close_socket (j, w)") blast
  obtain r1 j1 w1 where c1: "do_connect E (j0, w0) = (r1, j1, w1)"
    by (cases "do_connect E (j0, w0)") blast
  note f0 = close_socket_frame [OF c0]
  note f1 = do_connect_frame [OF c1]
  have g1: "grows w w1 \<and> new_actions w w1 = new_actions w w0 @ new_actions w0 w1"
    using f0(2) f1(2) by (rule grows_trans)
  have sent0: "sent (new_actions w w0) = []" "sleeps (new_actions w w0) = []"
    "failed_attempts (new_actions w w0) = []" "successful_attempts (new_actions w w0) = []"
    using f0(3) by (auto split: option.splits)
  have j1: "j1 = j\<lparr>socket := socket j1\<rparr>" using f0(1) f1(1) by simp
  have main: "j' = j\<lparr>socket := socket j', connected := connected j', reconnect_thread := reconnect_thread j'\<rparr>
    \<and> grows w w'
    \<and> sleeps (new_actions w w') = []
    \<and> failed_attempts (new_actions w w') = []
    \<and> length (successful_attempts (new_actions w w')) \<le> 1
    \<and> (r = Inl e \<and> is_Exception e \<longrightarrow>
           successful_attempts (new_actions w w') = [] \<and> sent (new_actions w w') = [] \<and> \<not> connected j')
    \<and> (r = Inr v \<longrightarrow>
           successful_attempts (new_actions w w') = [Suc attempt] \<and>
           (\<exists>hd s ad tl. new_actions w w' = hd @ [Connect s ad None, Stderr (ReconnectedAfter (Suc attempt))] @ tl \<and>
              socket j' = Some s \<and> sent hd = [] \<and> (\<forall>a\<in>set tl. \<not> waits a) \<and>
              (connected j' = (\<forall>e. Stderr (ConnectionLost e) \<notin> set tl)) \<and>
              (\<exists>ts. sent tl = (if well_formed E (started_doc (job_id j) ts)
                  then [started_doc (job_id j) ts]
                  else []))))"
  proof (cases r1)
    case (Inl e1)
    then have eq: "r = Inl e1" "j' = j1" "w' = w1"
      using assms(1) c0 c1 by (simp_all add: attempt_try_def attempt_connect_def)
    have a1: "j' = j\<lparr>socket := socket j', connected := connected j', reconnect_thread := reconnect_thread j'\<rparr>"
      unfolding eq by (subst (1 2 3 4) j1) simp
    have a2: "\<not> connected j'"
      unfolding eq using assms(2) by (subst j1) simp
    have a3: "sleeps (new_actions w w') = [] \<and> failed_attempts (new_actions w w') = [] \<and>
        successful_attempts (new_actions w w') = [] \<and> sent (new_actions w w') = []"
      using eq g1 f1(3,4,5,6) sent0 by simp
    show ?thesis using a1 a2 a3 eq g1 by simp
  next
    case (Inr v1)
    define j2 where "j2 = j1\<lparr>connected := True\<rparr>"
    define w2 where "w2 = printed (ReconnectedAfter (attempt + 1)) w1"
    have c2: "send_started E (j2, w2) = (r, j', w')"
      using assms(1) c0 c1 Inr mark_reconnected_ok [OF assms(3)]
      by (simp add: attempt_try_def attempt_connect_def j2_def w2_def del: mark_reconnected.simps)
    note f2 = send_started_frame [OF c2]
    have g2: "grows w w2 \<and> new_actions w w2 = new_actions w w1 @ [Stderr (ReconnectedAfter (attempt + 1))]"
      unfolding w2_def using g1 by (simp add: grows_printed)
    have g3: "grows w w' \<and> new_actions w w' = new_actions w w2 @ new_actions w2 w'"
      using grows_trans [of w w2 w'] g2 f2(3) by blast
    obtain s ad pre where conn: "socket j1 = Some s" "new_actions w0 w1 = pre @ [Connect s ad None]"
      using f1(7) [of v1] Inr by blast
    have j2: "j2 = j\<lparr>socket := Some s, connected := True\<rparr>"
      unfolding j2_def using conn(1) by (subst j1) simp
    have a1: "j' = j\<lparr>socket := socket j', connected := connected j', reconnect_thread := reconnect_thread j'\<rparr>"
      by (subst (1 2 3 4) f2(1)) (simp add: j2)
    have a2: "socket j' = Some s"
      by (subst f2(1)) (simp add: j2)
    have a3: "sleeps (new_actions w w') = [] \<and> failed_attempts (new_actions w w') = [] \<and>
        successful_attempts (new_actions w w') = [Suc attempt]"
      using g3 g2 g1 f1(3,4,5) sent0 f2(4,5,6) by simp
    have jid: "job_id j2 = job_id j" "socket j2 \<noteq> None"
      by (simp_all add: j2)
    have tlsent: "\<exists>ts. sent (new_actions w2 w') = (if well_formed E (started_doc (job_id j) ts)
                  then [started_doc (job_id j) ts]
                  else [])"
      using f2(8) jid by (intro exI [of _ "py_int (time_time E (n_time w2) * 1000)"]) simp
    have conn': "connected j' = (\<forall>e. Stderr (ConnectionLost e) \<notin> set (new_actions w2 w'))"
      using f2(10) by (simp add: j2)
    have a4: "new_actions w w' = (new_actions w w0 @ pre) @ [Connect s ad None, Stderr (ReconnectedAfter (Suc attempt))] @ new_actions w2 w'"
      using g3 g2 g1 conn(2) by simp
    have a5: "sent (new_actions w w0 @ pre) = []"
      using sent0 f1(6) conn(2) by simp
    have a6: "\<exists>hd s ad tl. new_actions w w' = hd @ [Connect s ad None, Stderr (ReconnectedAfter (Suc attempt))] @ tl \<and>
              socket j' = Some s \<and> sent hd = [] \<and> (\<forall>a\<in>set tl. \<not> waits a) \<and>
              (connected j' = (\<forall>e. Stderr (ConnectionLost e) \<notin> set tl)) \<and>
              (\<exists>ts. sent tl = (if well_formed E (started_doc (job_id j) ts)
                  then [started_doc (job_id j) ts]
                  else []))"
      using a4 a5 a2 f2(7) tlsent conn' by blast
    have a7: "r = Inl e \<longrightarrow> \<not> is_Exception e" using f2(9) [of e] assms(3) by simp
    show ?thesis using a1 a3 a6 a7 g3 by simp
  qed
  then show "j' = j\<lparr>socket := socket j', connected := connected j', reconnect_thread := reconnect_thread j'\<rparr>"
    and "grows w w'"
    and "sleeps (new_actions w w') = []"
    and "failed_attempts (new_actions w w') = []"
    and "length (successful_attempts (new_actions w w')) \<le> 1"
    and "r = Inl e \<and> is_Exception e \<longrightarrow>
           successful_attempts (new_actions w w') = [] \<and> sent (new_actions w w') = [] \<and> \<not> connected j'"
    and "r = Inr v \<longrightarrow>
           successful_attempts (new_actions w w') = [Suc attempt] \<and>
           (\<exists>hd s ad tl. new_actions w w' = hd @ [Connect s ad None, Stderr (ReconnectedAfter (Suc attempt))] @ tl \<and>
              socket j' = Some s \<and> sent hd = [] \<and> (\<forall>a\<in>set tl. \<not> waits a) \<and>
              (connected j' = (\<forall>e. Stderr (ConnectionLost e) \<notin> set tl)) \<and>
              (\<exists>ts. sent tl = (if well_formed E (started_doc (job_id j) ts)
                  then [started_doc (job_id j) ts]
                  else [])))"
    by blast+
qed

lemma reconnect_attempts_frame:
  assumes "reconnect_attempts E as (j, w) = (r, j', w')" and "\<not> connected j" and "diagnostics_ok E"
  shows "j' = j\<lparr>socket := socket j', connected := connected j', reconnect_thread := reconnect_thread j'\<rparr>
    \<and> grows w w'
    \<and> length (failed_attempts (new_actions w w')) + length (successful_attempts (new_actions w w')) \<le> length as
    \<and> (r = Inr False \<longrightarrow>
          failed_attempts (new_actions w w') = map Suc as \<and>
          successful_attempts (new_actions w w') = [] \<and>
          sleeps (new_actions w w') = replicate (length as) (reconnect_interval j) \<and>
          sent (new_actions w w') = [] \<and> \<not> connected j')
    \<and> (r = Inr True \<longrightarrow>
          (\<exists>pre a post. as = pre @ a # post \<and>
             failed_attempts (new_actions w w') = map Suc pre \<and>
             successful_attempts (new_actions w w') = [Suc a] \<and>
             sleeps (new_actions w w') = replicate (length pre) (reconnect_interval j) \<and>
             (\<exists>hd s ad tl. new_actions w w' = hd @ [Connect s ad None, Stderr (ReconnectedAfter (Suc a))] @ tl \<and>
                socket j' = Some s \<and> sent hd = [] \<and> (\<forall>a\<in>set tl. \<not> waits a) \<and>
              (connected j' = (\<forall>e. Stderr (ConnectionLost e) \<notin> set tl)) \<and>
                (\<exists>ts. sent tl = (if well_formed E (started_doc (job_id j) ts) then [started_doc (job_id j) ts] else [])))))
    \<and> (\<forall>e. r = Inl e \<and> is_Exception e \<longrightarrow> reconnect_interval j < 0)"
  using assms
proof (induction as arbitrary: j w)
  case Nil
  then have eq: "r = Inr False" "j' = j" "w' = printed (FailedToReconnectAfter (max_reconnect_attempts j)) w"
    by (auto simp: print_stderr_ok simp del: print_stderr.simps)
  have g: "grows w w' \<and> new_actions w w' = [Stderr (FailedToReconnectAfter (max_reconnect_attempts j))]"
    unfolding eq using grows_printed [of w w] by (simp add: grows_refl)
  show ?case using g eq Nil.prems(2) by simp
next
  case (Cons a rest)
  obtain r1 j1 w1 where t: "attempt_try E a (j, w) = (r1, j1, w1)"
    by (cases "attempt_try E a (j, w)") blast
  note f = attempt_try_frame [OF t Cons.prems(2) Cons.prems(3)]
  note d = Cons.prems(3)
  show ?case
  proof (cases r1)
    case (Inr v)
    then have eq: "r = Inr True" "j' = j1" "w' = w1"
      using Cons.prems(1) t by simp_all
    have "a # rest = [] @ a # rest \<and>
             failed_attempts (new_actions w w') = map Suc [] \<and>
             successful_attempts (new_actions w w') = [Suc a] \<and>
             sleeps (new_actions w w') = replicate (length ([]::nat list)) (reconnect_interval j) \<and>
             (\<exists>hd s ad tl. new_actions w w' = hd @ [Connect s ad None, Stderr (ReconnectedAfter (Suc a))] @ tl \<and>
                socket j' = Some s \<and> sent hd = [] \<and> (\<forall>a\<in>set tl. \<not> waits a) \<and>
              (connected j' = (\<forall>e. Stderr (ConnectionLost e) \<notin> set tl)) \<and>
                (\<exists>ts. sent tl = (if well_formed E (started_doc (job_id j) ts) then [started_doc (job_id j) ts] else [])))"
      using f(3,4) f(7) [of v] Inr unfolding eq by simp
    then have p4: "\<exists>pre a' post. a # rest = pre @ a' # post \<and>
             failed_attempts (new_actions w w') = map Suc pre \<and>
             successful_attempts (new_actions w w') = [Suc a'] \<and>
             sleeps (new_actions w w') = replicate (length pre) (reconnect_interval j) \<and>
             (\<exists>hd s ad tl. new_actions w w' = hd @ [Connect s ad None, Stderr (ReconnectedAfter (Suc a'))] @ tl \<and>
                socket j' = Some s \<and> sent hd = [] \<and> (\<forall>a\<in>set tl. \<not> waits a) \<and>
              (connected j' = (\<forall>e. Stderr (ConnectionLost e) \<notin> set tl)) \<and>
                (\<exists>ts. sent tl = (if well_formed E (started_doc (job_id j) ts) then [started_doc (job_id j) ts] else [])))"
      by blast
    have p3: "length (failed_attempts (new_actions w w')) + length (successful_attempts (new_actions w w')) \<le> length (a # rest)"
      using f(4,5) unfolding eq by simp
    show ?thesis using p4 p3 f(1,2) unfolding eq by simp
  next
    case (Inl e)
    show ?thesis
    proof (cases "is_Exception e")
      case False
      then have eq: "r = Inl e" "j' = j1" "w' = w1"
        using Cons.prems(1) t Inl by (simp_all add: attempt_except_def)
      have p3: "length (failed_attempts (new_actions w w')) + length (successful_attempts (new_actions w w')) \<le> length (a # rest)"
        using f(4,5) unfolding eq by simp
      show ?thesis using p3 f(1,2) False unfolding eq by simp
    next
      case True
      have nc: "\<not> connected j1" and s1: "successful_attempts (new_actions w w1) = []"
        and sent1: "sent (new_actions w w1) = []"
        using f(6) [of e] Inl True by simp_all
      have ri: "reconnect_interval j1 = reconnect_interval j" "job_id j1 = job_id j"
        by (subst f(1), simp)+
      define w1' where "w1' = printed (ReconnectAttemptFailed (a + 1) (max_reconnect_attempts j1) e) w1"
      have g1': "grows w w1' \<and> new_actions w w1' = new_actions w w1 @
          [Stderr (ReconnectAttemptFailed (Suc a) (max_reconnect_attempts j1) e)]"
        unfolding w1'_def using grows_printed [OF f(2)] by simp
      show ?thesis
      proof (cases "reconnect_interval j < 0")
        case neg: True
        have eq: "r = Inl (Exc ValueError ''sleep length must be non-negative'')" "j' = j1" "w' = w1'"
          using Cons.prems(1) t Inl True neg ri attempt_failed_ok [OF d]
          by (auto simp add: attempt_except_def w1'_def simp del: attempt_failed.simps)
        have p3: "length (failed_attempts (new_actions w w')) + length (successful_attempts (new_actions w w')) \<le> length (a # rest)"
          using g1' f(4) s1 unfolding eq by simp
        show ?thesis using p3 f(1) g1' neg unfolding eq by simp
      next
        case nonneg: False
      define w2 where "w2 = emit (Sleep (reconnect_interval j1)) w1'"
      have rec: "reconnect_attempts E rest (j1, w2) = (r, j', w')"
        using Cons.prems(1) t Inl True nonneg ri attempt_failed_ok [OF d]
        by (simp add: attempt_except_def w2_def w1'_def del: attempt_failed.simps)
      note ih = Cons.IH [OF rec nc d]
      have g2: "grows w w2 \<and> new_actions w w2 = new_actions w w1 @
          [Stderr (ReconnectAttemptFailed (Suc a) (max_reconnect_attempts j1) e), Sleep (reconnect_interval j)]"
        unfolding w2_def using grows_emit [OF g1' [THEN conjunct1]] g1' ri
        by simp
      have g3: "grows w w' \<and> new_actions w w' = new_actions w w2 @ new_actions w2 w'"
        using grows_trans [of w w2 w'] g2 ih by blast
      have a1: "j' = j\<lparr>socket := socket j', connected := connected j', reconnect_thread := reconnect_thread j'\<rparr>"
        using ih by (subst (1 2 3 4) conjunct1 [OF ih], subst (1) f(1)) simp
      have pre2: "failed_attempts (new_actions w w2) = [Suc a]" "successful_attempts (new_actions w w2) = []"
        "sleeps (new_actions w w2) = [reconnect_interval j]" "sent (new_actions w w2) = []"
        using g2 f(3,4) s1 sent1 by simp_all
      have p3: "length (failed_attempts (new_actions w w')) + length (successful_attempts (new_actions w w')) \<le> length (a # rest)"
        using g3 pre2 ih by simp
      have p4: "r = Inr False \<longrightarrow>
          failed_attempts (new_actions w w') = map Suc (a # rest) \<and>
          successful_attempts (new_actions w w') = [] \<and>
          sleeps (new_actions w w') = replicate (length (a # rest)) (reconnect_interval j) \<and>
          sent (new_actions w w') = [] \<and> \<not> connected j'"
        using g3 pre2 ih ri by simp
      have p5: "r = Inr True \<longrightarrow>
          (\<exists>pre a' post. a # rest = pre @ a' # post \<and>
             failed_attempts (new_actions w w') = map Suc pre \<and>
             successful_attempts (new_actions w w') = [Suc a'] \<and>
             sleeps (new_actions w w') = replicate (length pre) (reconnect_interval j) \<and>
             (\<exists>hd s ad tl. new_actions w w' = hd @ [Connect s ad None, Stderr (ReconnectedAfter (Suc a'))] @ tl \<and>
                socket j' = Some s \<and> sent hd = [] \<and> (\<forall>a\<in>set tl. \<not> waits a) \<and>
              (connected j' = (\<forall>e. Stderr (ConnectionLost e) \<notin> set tl)) \<and>
                (\<exists>ts. sent tl = (if well_formed E (started_doc (job_id j) ts) then [started_doc (job_id j) ts] else []))))"
      proof
        assume "r = Inr True"
        with ih obtain pre a' post hd s ad tl ts where o:
          "rest = pre @ a' # post"
          "failed_attempts (new_actions w2 w') = map Suc pre"
          "successful_attempts (new_actions w2 w') = [Suc a']"
          "sleeps (new_actions w2 w') = replicate (length pre) (reconnect_interval j1)"
          "new_actions w2 w' = hd @ [Connect s ad None, Stderr (ReconnectedAfter (Suc a'))] @ tl"
          "socket j' = Some s" "sent hd = []" "\<forall>a\<in>set tl. \<not> waits a"
          "sent tl = (if well_formed E (started_doc (job_id j1) ts) then [started_doc (job_id j1) ts] else [])"
          "connected j' = (\<forall>e. Stderr (ConnectionLost e) \<notin> set tl)"
          by blast
        have b1: "a # rest = (a # pre) @ a' # post" using o(1) by simp
        have b2: "failed_attempts (new_actions w w') = map Suc (a # pre)"
          using g3 pre2 o(2) by simp
        have b3: "successful_attempts (new_actions w w') = [Suc a']"
          using g3 pre2 o(3) by simp
        have b4: "sleeps (new_actions w w') = replicate (length (a # pre)) (reconnect_interval j)"
          using g3 pre2 o(4) ri by simp
        have b5: "new_actions w w' = (new_actions w w2 @ hd) @ [Connect s ad None, Stderr (ReconnectedAfter (Suc a'))] @ tl"
          using g3 o(5) by simp
        have b6: "sent (new_actions w w2 @ hd) = []" using pre2 o(7) by simp
        have b7: "sent tl = (if well_formed E (started_doc (job_id j) ts) then [started_doc (job_id j) ts] else [])"
          using o(9) ri by simp
        from b1 b2 b3 b4 b5 b6 b7 o(6) o(8) o(10)
        show "\<exists>pre a' post. a # rest = pre @ a' # post \<and>
             failed_attempts (new_actions w w') = map Suc pre \<and>
             successful_attempts (new_actions w w') = [Suc a'] \<and>
             sleeps (new_actions w w') = replicate (length pre) (reconnect_interval j) \<and>
             (\<exists>hd s ad tl. new_actions w w' = hd @ [Connect s ad None, Stderr (ReconnectedAfter (Suc a'))] @ tl \<and>
                socket j' = Some s \<and> sent hd = [] \<and> (\<forall>a\<in>set tl. \<not> waits a) \<and>
              (connected j' = (\<forall>e. Stderr (ConnectionLost e) \<notin> set tl)) \<and>
                (\<exists>ts. sent tl = (if well_formed E (started_doc (job_id j) ts) then [started_doc (job_id j) ts] else [])))"
          by blast
      qed
      have p6: "\<forall>e. r = Inl e \<and> is_Exception e \<longrightarrow> reconnect_interval j < 0"
        using ih ri by simp
      show ?thesis using a1 g3 p3 p4 p5 p6 by blast
      qed
    qed
  qed
qed

section \<open>The example run evaluated\<close>

lemmas run_defs = attempt_try_def attempt_connect_def attempt_except_def send_started_def
  json_dumps_def started_doc_def emit_def printed_def Let_def

lemma ex_lost_eq:
  "ex_lost =
     (ex_up2\<lparr>connected := False, reconnect_thread := Some 1\<rparr>,
      \<lparr>n_create = 1, n_connect = 1, n_sendall = 2, n_time = 2, n_thread = 2, n_print = 1,
       trace = trace ex_io @
               [Sendall (Sock AF_UNIX 0)
                  (Line (JsonText (PDict [(''type'', PStr ''heartbeat''), (''jobId'', PStr ''j1''),
                                          (''timestamp'', PInt 1700000001000)])))
                  (Some (Exc BrokenPipeError ''Broken pipe'')),
                Stderr (ConnectionLost (Exc BrokenPipeError ''Broken pipe'')),
                ThreadStart ReconnectLoop 1]\<rparr>)"
  by (simp add: ex_lost_def ex_defs run_defs int_fits)

lemma ex_exhausted_eq:
  "ex_exhausted =
     (ex_up2\<lparr>connected := False, reconnect_thread := None, socket := Some (Sock AF_UNIX 2)\<rparr>,
      \<lparr>n_create = 3, n_connect = 3, n_sendall = 2, n_time = 2, n_thread = 2, n_print = 6,
       trace = trace (snd ex_lost) @
               [Stderr AttemptingReconnect,
                Close (Sock AF_UNIX 0), SocketNew AF_UNIX None,
                Connect (Sock AF_UNIX 1) (UnixAddr ''/tmp/x.sock'')
                  (Some (Exc ConnectionRefusedError ''Connection refused'')),
                Stderr (ReconnectAttemptFailed 1 2 (Exc ConnectionRefusedError ''Connection refused'')),
                Sleep 2,
                Close (Sock AF_UNIX 1), SocketNew AF_UNIX None,
                Connect (Sock AF_UNIX 2) (UnixAddr ''/tmp/x.sock'')
                  (Some (Exc ConnectionRefusedError ''Connection refused'')),
                Stderr (ReconnectAttemptFailed 2 2 (Exc ConnectionRefusedError ''Connection refused'')),
                Sleep 2,
                Stderr (FailedToReconnectAfter 2),
                Stderr ReconnectionFailed]\<rparr>)"
  unfolding ex_exhausted_def ex_lost_eq
  by (simp add: ex_defs run_defs upt_rec)

lemma ex_given_up_eq:
  "try_reconnect ex_env_refused (fst ex_lost, snd ex_lost) = (Inr False, fst ex_given_up, snd ex_given_up)
   \<and> fst ex_given_up =
       ex_up2\<lparr>connected := False, reconnect_thread := Some 1, socket := Some (Sock AF_UNIX 2)\<rparr>
   \<and> n_sendall (snd ex_given_up) = 2
   \<and> n_thread (snd ex_given_up) = 2
   \<and> n_time (snd ex_given_up) = 2"
  unfolding ex_given_up_def ex_lost_eq
  by (simp add: ex_defs run_defs upt_rec)

section \<open>The reconnection procedure\<close>







section \<open>After the last attempt\<close>

text \<open>
  C2, as the code has it. The specification has no reconnection ever started again
  after the last failed attempt. Here a job limited to two attempts loses its
  link, in a world whose prints return and whose threads start; both attempts are
  refused and the reconnection thread ends, clearing \<open>reconnect_thread\<close>; the
  next send meets the broken pipe and starts a second reconnection thread.
\<close>

theorem reconnects_again_counterexample:
  "fst (try_reconnect ex_env_refused ex_lost) = Inr False \<and>
   max_reconnect_attempts (fst ex_lost) = 2 \<and>
   failed_attempts (new_actions (snd ex_lost) (snd ex_exhausted)) = [1, 2] \<and>
   reconnect_thread (fst ex_exhausted) = None \<and>
   fst (send_message ex_env_refused (progress_msg (PInt 50) None []) ex_exhausted) = Inr False \<and>
   reconnect_thread (fst (snd (snd (send_message ex_env_refused (progress_msg (PInt 50) None []) ex_exhausted))))
     = Some 2 \<and>
   ThreadStart ReconnectLoop 2 \<in> set (new_actions (snd ex_exhausted)
     (snd (snd (snd (send_message ex_env_refused (progress_msg (PInt 50) None []) ex_exhausted)))))"
proof -
  have a: "fst (try_reconnect ex_env_refused ex_lost) = Inr False"
    unfolding ex_lost_eq
    by (simp add: ex_defs run_defs upt_rec)
  have b: "max_reconnect_attempts (fst ex_lost) = 2"
    unfolding ex_lost_eq by (simp add: ex_defs)
  have c: "failed_attempts (new_actions (snd ex_lost) (snd ex_exhausted)) = [1, 2]"
    unfolding ex_exhausted_eq by (simp add: new_actions_def)
  have d: "reconnect_thread (fst ex_exhausted) = None"
    unfolding ex_exhausted_eq by simp
  have e: "send_message ex_env_refused (progress_msg (PInt 50) None []) ex_exhausted =
      (Inr False,
       [(''type'', PStr ''progress''), (''percent'', PInt 50), (''jobId'', PStr ''j1''),
        (''timestamp'', PInt 1700000002000)],
       (fst ex_exhausted)\<lparr>reconnect_thread := Some 2\<rparr>,
       \<lparr>n_create = 3, n_connect = 3, n_sendall = 3, n_time = 3, n_thread = 3, n_print = 7,
        trace = trace (snd ex_exhausted) @
          [Sendall (Sock AF_UNIX 2)
             (Line (JsonText (PDict [(''type'', PStr ''progress''), (''percent'', PInt 50),
                                     (''jobId'', PStr ''j1''), (''timestamp'', PInt 1700000002000)])))
             (Some (Exc BrokenPipeError ''Broken pipe'')),
           Stderr (ConnectionLost (Exc BrokenPipeError ''Broken pipe'')),
           ThreadStart ReconnectLoop 2]\<rparr>)"
    unfolding ex_exhausted_eq
    by (simp add: ex_defs run_defs progress_msg_def int_fits)
  show ?thesis
    unfolding e using a b c d by (simp add: new_actions_def)
qed

lemma try_reconnect_frame:
  assumes "try_reconnect E (j, w) = (r, j', w')" and "diagnostics_ok E"
  shows "j' = j\<lparr>socket := socket j', connected := connected j', reconnect_thread := reconnect_thread j'\<rparr>"
proof (cases "connected j")
  case True
  with assms show ?thesis by auto
next
  case False
  with assms have "reconnect_attempts E [0..<nat (max_reconnect_attempts j)]
      (j, printed AttemptingReconnect w) = (r, j', w')"
    by (simp add: print_stderr_ok del: print_stderr.simps)
  from reconnect_attempts_frame [OF this False assms(2)] show ?thesis by blast
qed

lemma send_message_spawns:
  assumes "running j" and "reconnect_thread j = None" and "socket j \<noteq> None"
    and "well_formed E (PDict (stamped E m (j, w)))"
    and "sock_sendall E (n_sendall w) = Some e" and "is_OSError e"
    and "diagnostics_ok_at E w"
  shows "fst (send_message E m (j, w)) = Inr False"
    and "reconnect_thread (fst (snd (snd (send_message E m (j, w))))) = Some (n_thread w)"
    and "ThreadStart ReconnectLoop (n_thread w) \<in> set (new_actions w (snd (snd (snd (send_message E m (j, w))))))"
proof -
  have d: "dumps_error E 0 (PDict (stamped E m (j, w))) = None"
    using assms(4) well_formed_dumps by blast
  obtain s where s: "socket j = Some s" using assms(3) by auto
  have eq: "send_message E m (j, w) =
     (Inr False, stamped E m (j, w), j\<lparr>connected := False, reconnect_thread := Some (n_thread w)\<rparr>,
      w\<lparr>n_time := Suc (n_time w), n_sendall := Suc (n_sendall w), n_thread := Suc (n_thread w),
        n_print := Suc (n_print w),
        trace := trace w @ [Sendall s (Line (JsonText (PDict (stamped E m (j, w))))) (Some e),
                            Stderr (ConnectionLost e), ThreadStart ReconnectLoop (n_thread w)]\<rparr>)"
    using assms(1,2,5,6,7) s d unfolding stamped_def
    by (simp add: json_dumps_def Let_def emit_def printed_def diagnostics_ok_at_def del: dumps_error.simps)
  show "fst (send_message E m (j, w)) = Inr False"
    and "reconnect_thread (fst (snd (snd (send_message E m (j, w))))) = Some (n_thread w)"
    and "ThreadStart ReconnectLoop (n_thread w) \<in> set (new_actions w (snd (snd (snd (send_message E m (j, w))))))"
    unfolding eq by (simp_all add: new_actions_def)
qed

text \<open>
  C2, amended. In a world where every print returns and every thread starts: when
  a reconnection entered with the link marked down returns
  \<open>False\<close>, the reconnection thread ends with the link still marked down, the
  running flag as it was and \<open>reconnect_thread\<close> cleared. There is no detached
  state: a later send returns \<open>False\<close> without waiting while the link is down, and
  while the job is running the first such send whose write fails with an error of
  the \<^verbatim>\<open>OSError\<close> family starts a new reconnection thread.
\<close>

theorem reconnect_exhausted:
  assumes "diagnostics_ok E" and "\<not> connected j" and "try_reconnect E (j, w) = (Inr False, j0, w0)"
  shows "reconnect_loop E (j, w) =
           (Inr PNone, j0\<lparr>reconnect_thread := None\<rparr>, printed ReconnectionFailed w0) \<and>
         \<not> connected j0 \<and> running j0 = running j \<and>
         (link_down E (j0\<lparr>reconnect_thread := None\<rparr>, printed ReconnectionFailed w0) \<longrightarrow>
            fst (send_message E m (j0\<lparr>reconnect_thread := None\<rparr>, printed ReconnectionFailed w0)) = Inr False \<and>
            (\<forall>a\<in>set (new_actions (printed ReconnectionFailed w0)
                 (snd (snd (snd (send_message E m
                    (j0\<lparr>reconnect_thread := None\<rparr>, printed ReconnectionFailed w0)))))). \<not> waits a)) \<and>
         (running j \<and> socket j0 \<noteq> None \<and>
          well_formed E (PDict (stamped E m (j0, w0))) \<and>
          (\<exists>e. sock_sendall E (n_sendall w0) = Some e \<and> is_OSError e) \<longrightarrow>
            ThreadStart ReconnectLoop (n_thread w0) \<in>
              set (new_actions (printed ReconnectionFailed w0)
                 (snd (snd (snd (send_message E m
                    (j0\<lparr>reconnect_thread := None\<rparr>, printed ReconnectionFailed w0)))))))"
proof -
  let ?j1 = "j0\<lparr>reconnect_thread := None\<rparr>"
  let ?w1 = "printed ReconnectionFailed w0"
  have loop: "reconnect_loop E (j, w) = (Inr PNone, ?j1, ?w1)"
    using assms(3) by (simp add: print_stderr_ok [OF assms(1)] del: print_stderr.simps try_reconnect.simps)
  have fr: "j0 = j\<lparr>socket := socket j0, connected := connected j0, reconnect_thread := reconnect_thread j0\<rparr>"
    using try_reconnect_frame [OF assms(3) assms(1)] .
  have run: "running j0 = running j"
    by (subst fr) simp
  have "reconnect_attempts E [0..<nat (max_reconnect_attempts j)]
      (j, printed AttemptingReconnect w) = (Inr False, j0, w0)"
    using assms by (simp add: print_stderr_ok del: print_stderr.simps)
  from reconnect_attempts_frame [OF this assms(2) assms(1)]
  have nc: "\<not> connected j0" by simp
  have dat: "diagnostics_ok_at E ?w1"
    using assms(1) by (rule diagnostics_ok_at)
  have down: "link_down E (?j1, ?w1) \<longrightarrow>
            fst (send_message E m (?j1, ?w1)) = Inr False \<and>
            (\<forall>a\<in>set (new_actions ?w1 (snd (snd (snd (send_message E m (?j1, ?w1)))))). \<not> waits a)"
    using link_down_send [OF dat, of ?j1 m] send_message_new_actions_wait_free [of ?w1 E m ?j1]
    by blast
  have st: "stamped E m (?j1, ?w1) = stamped E m (j0, w0)"
    by (simp add: stamped_def emit_def printed_def)
  have spawn: "running j \<and> socket j0 \<noteq> None \<and> well_formed E (PDict (stamped E m (j0, w0))) \<and>
          (\<exists>e. sock_sendall E (n_sendall w0) = Some e \<and> is_OSError e) \<longrightarrow>
            ThreadStart ReconnectLoop (n_thread w0) \<in>
              set (new_actions ?w1 (snd (snd (snd (send_message E m (?j1, ?w1))))))"
  proof
    assume h: "running j \<and> socket j0 \<noteq> None \<and> well_formed E (PDict (stamped E m (j0, w0))) \<and>
          (\<exists>e. sock_sendall E (n_sendall w0) = Some e \<and> is_OSError e)"
    then obtain e where e: "sock_sendall E (n_sendall ?w1) = Some e" "is_OSError e"
      by (auto simp: emit_def printed_def)
    have "ThreadStart ReconnectLoop (n_thread ?w1) \<in>
              set (new_actions ?w1 (snd (snd (snd (send_message E m (?j1, ?w1))))))"
      using h run st e dat by (intro send_message_spawns(3)) simp_all
    then show "ThreadStart ReconnectLoop (n_thread w0) \<in>
              set (new_actions ?w1 (snd (snd (snd (send_message E m (?j1, ?w1))))))"
      by (simp add: emit_def printed_def)
  qed
  show ?thesis using loop nc run down spawn by blast
qed

theorem reconnect_exhausted_witness:
  "reconnect_loop ex_env_refused (fst ex_lost, snd ex_lost) =
     (Inr PNone, (fst ex_given_up)\<lparr>reconnect_thread := None\<rparr>,
      printed ReconnectionFailed (snd ex_given_up)) \<and>
   \<not> connected (fst ex_given_up) \<and>
   fst (send_message ex_env_refused (progress_msg (PInt 50) None [])
         ((fst ex_given_up)\<lparr>reconnect_thread := None\<rparr>,
          printed ReconnectionFailed (snd ex_given_up))) = Inr False \<and>
   ThreadStart ReconnectLoop (n_thread (snd ex_given_up)) \<in>
     set (new_actions (printed ReconnectionFailed (snd ex_given_up))
        (snd (snd (snd (send_message ex_env_refused (progress_msg (PInt 50) None [])
           ((fst ex_given_up)\<lparr>reconnect_thread := None\<rparr>,
            printed ReconnectionFailed (snd ex_given_up)))))))"
proof -
  let ?j0 = "fst ex_given_up"
  let ?w0 = "snd ex_given_up"
  let ?m = "progress_msg (PInt 50) None []"
  have d: "diagnostics_ok ex_env_refused"
    by (simp add: diagnostics_ok_def ex_env_refused_def ex_env_broken_def ex_env_def)
  have h1: "\<not> connected (fst ex_lost)"
    unfolding ex_lost_eq by simp
  have h2: "try_reconnect ex_env_refused (fst ex_lost, snd ex_lost) = (Inr False, ?j0, ?w0)"
    using ex_given_up_eq by blast
  have j0: "?j0 = ex_up2\<lparr>connected := False, reconnect_thread := Some 1, socket := Some (Sock AF_UNIX 2)\<rparr>"
    using ex_given_up_eq by blast
  have h3: "link_down ex_env_refused (?j0\<lparr>reconnect_thread := None\<rparr>, printed ReconnectionFailed ?w0)"
    by (simp add: link_down_def ex_env_refused_def ex_env_broken_def emit_def printed_def)
  have h4: "running (fst ex_lost) \<and> socket ?j0 \<noteq> None \<and>
          well_formed ex_env_refused (PDict (stamped ex_env_refused ?m (?j0, ?w0))) \<and>
          (\<exists>e. sock_sendall ex_env_refused (n_sendall ?w0) = Some e \<and> is_OSError e)"
    unfolding j0 unfolding ex_lost_eq using ex_given_up_eq
    by (simp add: ex_defs stamped_def progress_msg_def well_formed_def int_fits)
  from reconnect_exhausted [OF d h1 h2, of ?m] h3 h4
  show ?thesis by blast
qed

section \<open>The exit of a job\<close>












lemma ex_payload_line_nonempty: "ex_payload_line \<noteq> []"
  by (simp add: ex_payload_line_def)

lemma ex_read_job: "read_job ex_env_job default_heartbeat_interval = Inr ex_job"
  using ex_payload_line_nonempty
  by (simp add: read_job_def ex_env_job_def ex_env_def resolved_job_id_def resolved_socket_path_def
        dict_get_def ex_job_def Let_def)





text \<open>
  Where the hypothesis on the prints ends: the job of the example is connected,
  its handler returns, the write of the completion meets a broken pipe and the
  error stream is closed. The \<^verbatim>\<open>print\<close> of the \<^verbatim>\<open>except\<close> clause raises out of
  \<^verbatim>\<open>complete\<close>, the \<^verbatim>\<open>print\<close> under \<^verbatim>\<open>fail\<close> raises again, and the process
  ends on that exception, with exit status 1.
\<close>

lemma run_job_print_raises:
  "fst (run_session
         (ex_env_broken\<lparr>stderr_print := (\<lambda>n. Some (Exc BrokenPipeError ''Broken pipe''))\<rparr>)
         (\<lambda>jw. (Inr PNone, jw)) (ex_job, io0)) =
     Uncaught (Exc BrokenPipeError ''Broken pipe'')"
  by (simp add: ex_defs run_defs io0_def complete_def complete_msg_def fail_def fail_msg_def
        int_fits thread_started_def)

section \<open>One reconnection at a time\<close>

lemma send_critical_slot:
  assumes "send_critical E m (j, w) = (r, sp, m', j', w')"
  shows "reconnect_thread j' = reconnect_thread j \<and> job_id j' = job_id j \<and>
         (sp \<longrightarrow> reconnect_thread j = None \<and> running j \<and> r = Inr False)"
  using assms
  by (auto simp: Let_def split: option.splits sum.splits if_splits)

text \<open>A send is its critical section, followed by the start of the thread when the test held.\<close>

lemma send_message_critical:
  "send_message E m jw =
     (case send_critical E m jw of
        (r, sp, m', jw') \<Rightarrow>
          if sp then
            (case start_reconnect_thread E jw' of
               (None, jw'') \<Rightarrow> (r, m', jw'')
             | (Some x, jw'') \<Rightarrow> (Inl x, m', jw''))
          else (r, m', jw'))"
  by (cases jw) (auto simp: Let_def emit_def split: option.splits sum.splits)

lemma start_reconnect_thread_slot:
  "start_reconnect_thread E (j, w) = (r, j', w') \<Longrightarrow>
     reconnect_thread j' = Some (n_thread w) \<and> job_id j' = job_id j"
  by (auto simp: Let_def split: option.splits)

lemma goes_on_None [simp]: "(goes_on r pc = None) = (r \<noteq> None)"
  by (cases r) simp_all

lemma started_thread_None [simp]: "(started_thread r = None) = (r \<noteq> None)"
  by (cases r) simp_all

lemma do_connect_slot:
  "do_connect E (j, w) = (r, j', w') \<Longrightarrow> reconnect_thread j' = reconnect_thread j \<and> job_id j' = job_id j"
  using do_connect_frame(1) [of E j w r j' w']
  by (metis job.select_convs(1,10) job.surjective job.update_convs(8))

lemma connect_prepare_slot:
  "connect_prepare E (j, w) = (j', w') \<Longrightarrow> reconnect_thread j' = reconnect_thread j \<and> job_id j' = job_id j"
  unfolding connect_prepare_def
  by (cases "do_connect E (j, w)" rule: prod_cases3)
     (auto simp: Let_def split: sum.splits option.splits dest!: do_connect_slot simp del: do_connect.simps)

lemma disconnect_slot:
  "disconnect (j, w) = (r, j', w') \<Longrightarrow> reconnect_thread j' = reconnect_thread j \<and> job_id j' = job_id j"
  by (auto simp: Let_def split: option.splits if_splits)

lemma attempt_connect_slot:
  "attempt_connect E (j, w) = (r, j', w') \<Longrightarrow> reconnect_thread j' = reconnect_thread j \<and> job_id j' = job_id j"
  unfolding attempt_connect_def
  by (cases "close_socket (j, w)") (auto split: option.splits dest!: do_connect_slot simp del: do_connect.simps)

lemma mark_reconnected_slot:
  "mark_reconnected E a (j, w) = (r, j', w') \<Longrightarrow>
     reconnect_thread j' = reconnect_thread j \<and> job_id j' = job_id j"
  by (auto split: option.splits)

lemma attempt_except_slot:
  "attempt_except E a e (j, w) = (r, j', w') \<Longrightarrow>
     reconnect_thread j' = reconnect_thread j \<and> job_id j' = job_id j"
  by (auto simp: attempt_except_def split: option.splits if_splits)

lemma step_slot:
  assumes "step E s s'"
    and "\<forall>t. rthreads s t \<noteq> None \<longrightarrow> reconnect_thread (obj s) = Some t"
    and "send_lock s \<noteq> None \<longrightarrow> reconnect_thread (obj s) = None"
  shows "(\<forall>t. rthreads s' t \<noteq> None \<longrightarrow> reconnect_thread (obj s') = Some t) \<and>
         (send_lock s' \<noteq> None \<longrightarrow> reconnect_thread (obj s') = None)"
  using assms
proof (induction rule: step.induct)
  case (main_connect s j' w')
  then show ?case using connect_prepare_slot by fastforce
next
  case (main_disconnect s r j' w')
  then show ?case using disconnect_slot by fastforce
next
  case (send_test s t ev r sp m' j' w')
  then show ?case using send_critical_slot [OF send_test(3)] by auto
next
  case (send_spawn s t r j' w')
  then show ?case using start_reconnect_thread_slot [OF send_spawn(3)] by auto
next
  case (heartbeat_sleep s r w')
  then show ?case by simp
next
  case (reconnect_entry_connected s t)
  then show ?case by auto
next
  case (reconnect_entry s t r w')
  then show ?case by auto
next
  case (reconnect_exhausted s t r w')
  then show ?case by auto
next
  case (reconnect_attempt_ok s t a rest v j' w')
  then show ?case using attempt_connect_slot [OF reconnect_attempt_ok(2)] by auto
next
  case (reconnect_attempt_except s t a rest e jw1 r j' w')
  obtain j1 w1 where jw1: "jw1 = (j1, w1)" by (cases jw1)
  from reconnect_attempt_except show ?case
    using attempt_connect_slot [OF reconnect_attempt_except(2) [unfolded jw1]]
      attempt_except_slot [OF reconnect_attempt_except(3) [unfolded jw1]] by auto
next
  case (reconnect_mark s t a rest j' w')
  then show ?case using mark_reconnected_slot [OF reconnect_mark(2)] by auto
next
  case (reconnect_mark_except s t a rest e jw1 r j' w')
  obtain j1 w1 where jw1: "jw1 = (j1, w1)" by (cases jw1)
  from reconnect_mark_except show ?case
    using mark_reconnected_slot [OF reconnect_mark_except(2) [unfolded jw1]]
      attempt_except_slot [OF reconnect_mark_except(3) [unfolded jw1]] by auto
next
  case (reconnect_started s t a rest b m' j' w')
  then show ?case using send_critical_slot [OF reconnect_started(3)] by auto
next
  case (reconnect_started_test s t a rest r m' j' w')
  then show ?case using send_critical_slot [OF reconnect_started_test(3)] by auto
next
  case (reconnect_started_except s t a rest e m' jw1 r j' w')
  obtain j1 w1 where jw1: "jw1 = (j1, w1)" by (cases jw1)
  from reconnect_started_except show ?case
    using send_critical_slot [OF reconnect_started_except(3) [unfolded jw1]]
      attempt_except_slot [OF reconnect_started_except(4) [unfolded jw1]] by auto
next
  case (reconnect_started_spawn s t a rest j' w')
  then show ?case by auto
next
  case (reconnect_started_spawn_except s t a rest e jw1 r j' w')
  then show ?case by auto
next
  case (reconnect_report s t ok r w')
  then show ?case by auto
next
  case (reconnect_clear s t)
  have one: "\<And>u. rthreads s u \<noteq> None \<Longrightarrow> u = t"
    using reconnect_clear(1,2) by (metis option.distinct(1) option.inject)
  then have "\<forall>u. u \<noteq> t \<longrightarrow> rthreads s u = None" by blast
  then show ?case by simp
qed

lemma reachable_slot:
  assumes "reachable E j0 s"
  shows "(\<forall>t. rthreads s t \<noteq> None \<longrightarrow> reconnect_thread (obj s) = Some t) \<and>
         (send_lock s \<noteq> None \<longrightarrow> reconnect_thread (obj s) = None)"
  using assms
proof (induction rule: reachable.induct)
  case (reach_start jid nm dat path hb ri mra)
  then show ?case by (simp add: sys0_def init_def)
next
  case (reach_step s s')
  then show ?case using step_slot [of E s s'] by blast
qed

lemma step_live:
  assumes "step E s s'"
    and "\<forall>t. rthreads s t \<noteq> None \<longrightarrow> reconnect_thread (obj s) = Some t"
    and "send_lock s \<noteq> None \<longrightarrow> reconnect_thread (obj s) = None"
    and "live s \<noteq> {}"
  shows "live s' \<subseteq> live s"
  using assms
  by (induction rule: step.induct) (auto simp: live_def)

lemma send_message_no_spawn:
  assumes "reconnect_thread j \<noteq> None"
  shows "fst (snd (send_critical E m (j, w))) = False"
    and "reconnect_thread (fst (snd (snd (send_message E m (j, w))))) = reconnect_thread j"
    and "\<forall>k. ThreadStart ReconnectLoop k \<notin> set (new_actions w (snd (snd (snd (send_message E m (j, w))))))"
proof -
  show "fst (snd (send_critical E m (j, w))) = False"
    using assms by (auto simp: Let_def split: option.splits sum.splits)
  show "reconnect_thread (fst (snd (snd (send_message E m (j, w))))) = reconnect_thread j"
    using assms by (auto simp: Let_def split: option.splits sum.splits)
  have "\<exists>new. trace (snd (snd (snd (send_message E m (j, w))))) = trace w @ new \<and>
          (\<forall>k. ThreadStart ReconnectLoop k \<notin> set new)"
    using assms by (auto simp: Let_def emit_def printed_def split: option.splits sum.splits)
  then show "\<forall>k. ThreadStart ReconnectLoop k \<notin> set (new_actions w (snd (snd (snd (send_message E m (j, w))))))"
    by (auto simp: new_actions_def)
qed

text \<open>
  C3. In every state the threads of a job can reach, at most one reconnection
  thread has been started and has not ended. While one is there, no step of any
  thread adds another, and a send that meets a transport failure starts none: the
  test before the store fails, \<open>reconnect_thread\<close> stays as it is and no thread
  start is among the actions of the send.
\<close>

theorem one_reconnection_at_a_time:
  assumes "reachable E j0 s"
  shows "(\<forall>t\<in>live s. \<forall>t'\<in>live s. t = t') \<and>
         (\<forall>s'. step E s s' \<and> live s \<noteq> {} \<longrightarrow> live s' \<subseteq> live s) \<and>
         (live s \<noteq> {} \<longrightarrow>
            fst (snd (send_critical E m (obj s, world s))) = False \<and>
            reconnect_thread (fst (snd (snd (send_message E m (obj s, world s))))) = reconnect_thread (obj s) \<and>
            (\<forall>k. ThreadStart ReconnectLoop k \<notin>
                   set (new_actions (world s) (snd (snd (snd (send_message E m (obj s, world s))))))))"
proof -
  note inv = reachable_slot [OF assms]
  have a: "\<forall>t\<in>live s. \<forall>t'\<in>live s. t = t'"
  proof (intro ballI)
    fix t t'
    assume "t \<in> live s" and "t' \<in> live s"
    then have "rthreads s t \<noteq> None" and "rthreads s t' \<noteq> None"
      by (simp_all add: live_def)
    with inv have "reconnect_thread (obj s) = Some t" and "reconnect_thread (obj s) = Some t'"
      by blast+
    then show "t = t'" by simp
  qed
  have b: "\<forall>s'. step E s s' \<and> live s \<noteq> {} \<longrightarrow> live s' \<subseteq> live s"
    using inv step_live [of E s] by blast
  have c: "live s \<noteq> {} \<longrightarrow>
            fst (snd (send_critical E m (obj s, world s))) = False \<and>
            reconnect_thread (fst (snd (snd (send_message E m (obj s, world s))))) = reconnect_thread (obj s) \<and>
            (\<forall>k. ThreadStart ReconnectLoop k \<notin>
                   set (new_actions (world s) (snd (snd (snd (send_message E m (obj s, world s)))))))"
  proof
    assume "live s \<noteq> {}"
    then obtain t where "rthreads s t \<noteq> None" by (auto simp: live_def)
    with inv have "reconnect_thread (obj s) \<noteq> None" by auto
    from send_message_no_spawn [OF this]
    show "fst (snd (send_critical E m (obj s, world s))) = False \<and>
            reconnect_thread (fst (snd (snd (send_message E m (obj s, world s))))) = reconnect_thread (obj s) \<and>
            (\<forall>k. ThreadStart ReconnectLoop k \<notin>
                   set (new_actions (world s) (snd (snd (snd (send_message E m (obj s, world s)))))))"
      by blast
  qed
  from a b c show ?thesis by blast
qed

lemma ex_sys_connected_eq:
  "obj ex_sys_connected = ex_up \<and>
   world ex_sys_connected =
     \<lparr>n_create = 1, n_connect = 1, n_sendall = 0, n_time = 0, n_thread = 1, n_print = 0,
      trace = [SocketNew AF_UNIX None, Connect (Sock AF_UNIX 0) (UnixAddr ''/tmp/x.sock'') None,
               ThreadStart HeartbeatLoop 0]\<rparr> \<and>
   send_lock ex_sys_connected = None \<and> rthreads ex_sys_connected = (\<lambda>t. None)"
  by (simp add: ex_sys_connected_def sys0_def connect_prepare_def ex_defs io0_def emit_def Let_def)

lemma ex_send_critical:
  "send_critical ex_env_broken (event_msg Started) (obj ex_sys_connected, world ex_sys_connected) =
     (Inr False, True,
      fst (snd (snd (send_critical ex_env_broken (event_msg Started) (obj ex_sys_connected, world ex_sys_connected)))),
      fst (snd (snd (snd (send_critical ex_env_broken (event_msg Started) (obj ex_sys_connected, world ex_sys_connected))))),
      snd (snd (snd (snd (send_critical ex_env_broken (event_msg Started) (obj ex_sys_connected, world ex_sys_connected))))))"
  by (simp add: ex_sys_connected_eq ex_defs run_defs int_fits)

lemma ex_reachable: "reachable ex_env_broken ex_job ex_sys_reconnecting"
proof -
  have r0: "reachable ex_env_broken ex_job (sys0 ex_job)"
    by (rule reach_start) (rule ex_job_def)
  have s1: "step ex_env_broken (sys0 ex_job) ex_sys_connected"
    unfolding ex_sys_connected_def
    by (rule main_connect) (simp add: sys0_def)
  have s2: "step ex_env_broken ex_sys_connected ex_sys_lost"
    unfolding ex_sys_lost_def
    using send_test [of ex_sys_connected MainThread ex_env_broken Started, OF _ _ ex_send_critical]
    by (simp add: ex_sys_connected_eq)
  have l: "send_lock ex_sys_lost = Some MainThread"
    by (simp add: ex_sys_lost_def)
  have st: "start_reconnect_thread ex_env_broken (obj ex_sys_lost, world ex_sys_lost) =
      (None, fst (snd (start_reconnect_thread ex_env_broken (obj ex_sys_lost, world ex_sys_lost))),
       snd (snd (start_reconnect_thread ex_env_broken (obj ex_sys_lost, world ex_sys_lost))))"
    by (simp add: ex_env_broken_def ex_env_def Let_def)
  have s3: "step ex_env_broken ex_sys_lost ex_sys_reconnecting"
    unfolding ex_sys_reconnecting_def
    using send_spawn [OF l _ st] by simp
  from r0 s1 s2 s3 show ?thesis
    by (blast intro: reach_step)
qed

lemma ex_live: "live ex_sys_reconnecting = {1}"
  by (auto simp: live_def ex_sys_reconnecting_def ex_sys_lost_def ex_sys_connected_eq
        ex_defs run_defs int_fits)

theorem one_reconnection_at_a_time_witness:
  "reachable ex_env_broken ex_job ex_sys_reconnecting \<and> live ex_sys_reconnecting = {1} \<and>
   fst (snd (send_critical ex_env_broken (event_msg Heartbeat)
          (obj ex_sys_reconnecting, world ex_sys_reconnecting))) = False \<and>
   reconnect_thread (fst (snd (snd (send_message ex_env_broken (event_msg Heartbeat)
          (obj ex_sys_reconnecting, world ex_sys_reconnecting))))) = reconnect_thread (obj ex_sys_reconnecting)"
proof -
  have h: "live ex_sys_reconnecting \<noteq> {}"
    using ex_live by simp
  from one_reconnection_at_a_time [OF ex_reachable, of "event_msg Heartbeat"] h ex_reachable ex_live
  show ?thesis by blast
qed

section \<open>What reaches the transport\<close>

lemma event_msg_type: "map_of (event_msg ev) ''type'' = Some (PStr (event_kind ev))"
  by (cases ev) (simp_all add: progress_msg_def log_msg_def complete_msg_def fail_msg_def Let_def update_conv')

lemma event_kind_known: "event_kind ev \<in> set event_kinds"
  by (cases ev) (simp_all add: event_kinds_def)

lemma stamped_envelope: "carries_envelope (job_id j) (PDict (stamped E (event_msg ev) (j, w)))"
  by (simp add: carries_envelope_def map_of_stamped event_msg_type event_kind_known)

lemma send_critical_sent:
  assumes "send_critical E (event_msg ev) (j, w) = (r, sp, m', j', w')"
  shows "\<exists>new. trace w' = trace w @ new \<and> list_all (carries_envelope (job_id j)) (sent new)"
proof -
  have "\<exists>new. trace w' = trace w @ new \<and>
          (sent new = [] \<or> sent new = [PDict (stamped E (event_msg ev) (j, w))])"
    using assms
    by (auto simp: Let_def emit_def printed_def stamped_def dest!: json_dumps_Inr
             split: option.splits sum.splits if_splits)
  then show ?thesis using stamped_envelope [of j E ev w] by auto
qed

lemma started_msg: "[(''type'', PStr ''started'')] = event_msg Started"
  by simp

lemma print_stderr_sent:
  "print_stderr E l w = (r, w') \<Longrightarrow> \<exists>new. trace w' = trace w @ new \<and> sent new = []"
  by (auto simp: split: option.splits)

lemma py_sleep_sent:
  "py_sleep d w = (r, w') \<Longrightarrow> \<exists>new. trace w' = trace w @ new \<and> sent new = []"
  by (auto simp: emit_def split: if_splits)

lemma start_reconnect_thread_sent:
  "start_reconnect_thread E (j, w) = (r, j', w') \<Longrightarrow> \<exists>new. trace w' = trace w @ new \<and> sent new = []"
  by (auto simp: emit_def Let_def split: option.splits)

lemma do_connect_sent:
  "do_connect E (j, w) = (r, j', w') \<Longrightarrow> \<exists>new. trace w' = trace w @ new \<and> sent new = []"
  using do_connect_frame(2,6) [of E j w r j' w'] by (auto simp: grows_def)

lemma connect_prepare_sent:
  assumes "connect_prepare E (j, w) = (j', w')"
  shows "\<exists>new. trace w' = trace w @ new \<and> sent new = []"
proof -
  obtain r j1 w1 where d: "do_connect E (j, w) = (r, j1, w1)"
    by (cases "do_connect E (j, w)") blast
  from do_connect_sent [OF d] obtain new where n: "trace w1 = trace w @ new" "sent new = []" by blast
  show ?thesis
  proof (cases r)
    case (Inl e)
    with assms d n show ?thesis by (auto simp: connect_prepare_def)
  next
    case (Inr v)
    with assms d have "\<exists>new. trace w' = trace w1 @ new \<and> sent new = []"
      by (auto simp: connect_prepare_def emit_def Let_def split: option.splits)
    with n show ?thesis by auto
  qed
qed

lemma disconnect_sent:
  "disconnect (j, w) = (r, j', w') \<Longrightarrow> \<exists>new. trace w' = trace w @ new \<and> sent new = []"
  by (auto simp: Let_def emit_def split: option.splits if_splits)

lemma attempt_connect_sent:
  assumes "attempt_connect E (j, w) = (r, j', w')"
  shows "\<exists>new. trace w' = trace w @ new \<and> sent new = []"
proof -
  obtain j0 w0 where c: "close_socket (j, w) = (j0, w0)" by (cases "close_socket (j, w)") blast
  then have "\<exists>new. trace w0 = trace w @ new \<and> sent new = []"
    by (auto simp: emit_def split: option.splits)
  moreover from assms c have "do_connect E (j0, w0) = (r, j', w')" by (simp add: attempt_connect_def)
  from do_connect_sent [OF this] have "\<exists>new. trace w' = trace w0 @ new \<and> sent new = []" .
  ultimately show ?thesis by auto
qed

lemma mark_reconnected_sent:
  "mark_reconnected E a (j, w) = (r, j', w') \<Longrightarrow> \<exists>new. trace w' = trace w @ new \<and> sent new = []"
  by (auto split: option.splits)

lemma attempt_except_sent:
  "attempt_except E a e (j, w) = (r, j', w') \<Longrightarrow> \<exists>new. trace w' = trace w @ new \<and> sent new = []"
  by (auto simp: attempt_except_def emit_def split: option.splits if_splits)

lemma wire_nil:
  "\<exists>new. trace w' = trace w @ new \<and> sent new = [] \<Longrightarrow>
   \<exists>new. trace w' = trace w @ new \<and> list_all (carries_envelope jid) (sent new)"
  by auto

lemma wire_trans:
  assumes "\<exists>new. trace w1 = trace w @ new \<and> list_all (carries_envelope jid) (sent new)"
    and "\<exists>new. trace w2 = trace w1 @ new \<and> list_all (carries_envelope jid) (sent new)"
  shows "\<exists>new. trace w2 = trace w @ new \<and> list_all (carries_envelope jid) (sent new)"
proof -
  from assms obtain n1 n2 where "trace w1 = trace w @ n1" "list_all (carries_envelope jid) (sent n1)"
    "trace w2 = trace w1 @ n2" "list_all (carries_envelope jid) (sent n2)" by blast
  then have "trace w2 = trace w @ (n1 @ n2) \<and> list_all (carries_envelope jid) (sent (n1 @ n2))"
    by simp
  then show ?thesis by blast
qed

lemma wire_emit:
  "sent [a] = [] \<Longrightarrow> \<exists>new. trace (emit a w) = trace w @ new \<and> list_all (carries_envelope jid) (sent new)"
  by (rule exI [of _ "[a]"]) (simp add: emit_def)

lemma step_wire:
  assumes "step E s s'"
  shows "job_id (obj s') = job_id (obj s) \<and>
         (\<exists>new. trace (world s') = trace (world s) @ new \<and>
                list_all (carries_envelope (job_id (obj s))) (sent new))"
  using assms
proof (induction rule: step.induct)
  case (main_connect s j' w')
  then show ?case
    using connect_prepare_slot [OF main_connect] wire_nil [OF connect_prepare_sent [OF main_connect]] by simp
next
  case (main_disconnect s r j' w')
  then show ?case
    using disconnect_slot [OF main_disconnect] wire_nil [OF disconnect_sent [OF main_disconnect]] by simp
next
  case (send_test s t ev r sp m' j' w')
  then show ?case
    using send_critical_slot [OF send_test(3)] send_critical_sent [OF send_test(3)] by simp
next
  case (send_spawn s t r j' w')
  then show ?case
    using start_reconnect_thread_slot [OF send_spawn(3)]
      wire_nil [OF start_reconnect_thread_sent [OF send_spawn(3)]] by simp
next
  case (heartbeat_sleep s r w')
  then show ?case using wire_nil [OF py_sleep_sent [OF heartbeat_sleep]] by simp
next
  case (reconnect_entry_connected s t)
  then show ?case by simp
next
  case (reconnect_entry s t r w')
  then show ?case using wire_nil [OF print_stderr_sent [OF reconnect_entry(4)]] by simp
next
  case (reconnect_exhausted s t r w')
  then show ?case using wire_nil [OF print_stderr_sent [OF reconnect_exhausted(2)]] by simp
next
  case (reconnect_attempt_ok s t a rest v j' w')
  then show ?case
    using attempt_connect_slot [OF reconnect_attempt_ok(2)]
      wire_nil [OF attempt_connect_sent [OF reconnect_attempt_ok(2)]] by simp
next
  case (reconnect_attempt_except s t a rest e jw1 r j' w')
  obtain j1 w1 where jw1: "jw1 = (j1, w1)" by (cases jw1)
  note c = reconnect_attempt_except(2) [unfolded jw1]
  note f = reconnect_attempt_except(3) [unfolded jw1]
  have "\<exists>new. trace w' = trace (world s) @ new \<and>
                list_all (carries_envelope (job_id (obj s))) (sent new)"
    using wire_trans [OF wire_nil [OF attempt_connect_sent [OF c]] wire_nil [OF attempt_except_sent [OF f]]] .
  then show ?case
    using attempt_connect_slot [OF c] attempt_except_slot [OF f] by simp
next
  case (reconnect_mark s t a rest j' w')
  then show ?case
    using mark_reconnected_slot [OF reconnect_mark(2)]
      wire_nil [OF mark_reconnected_sent [OF reconnect_mark(2)]] by simp
next
  case (reconnect_mark_except s t a rest e jw1 r j' w')
  obtain j1 w1 where jw1: "jw1 = (j1, w1)" by (cases jw1)
  note c = reconnect_mark_except(2) [unfolded jw1]
  note f = reconnect_mark_except(3) [unfolded jw1]
  have "\<exists>new. trace w' = trace (world s) @ new \<and>
                list_all (carries_envelope (job_id (obj s))) (sent new)"
    using wire_trans [OF wire_nil [OF mark_reconnected_sent [OF c]] wire_nil [OF attempt_except_sent [OF f]]] .
  then show ?case
    using mark_reconnected_slot [OF c] attempt_except_slot [OF f] by simp
next
  case (reconnect_started s t a rest b m' j' w')
  note c = reconnect_started(3) [unfolded started_msg]
  show ?case using send_critical_slot [OF c] send_critical_sent [OF c] by simp
next
  case (reconnect_started_test s t a rest r m' j' w')
  note c = reconnect_started_test(3) [unfolded started_msg]
  show ?case using send_critical_slot [OF c] send_critical_sent [OF c] by simp
next
  case (reconnect_started_except s t a rest e m' jw1 r j' w')
  obtain j1 w1 where jw1: "jw1 = (j1, w1)" by (cases jw1)
  note c = reconnect_started_except(3) [unfolded jw1 started_msg]
  note f = reconnect_started_except(4) [unfolded jw1]
  have "\<exists>new. trace w' = trace (world s) @ new \<and>
                list_all (carries_envelope (job_id (obj s))) (sent new)"
    using wire_trans [OF send_critical_sent [OF c] wire_nil [OF attempt_except_sent [OF f]]] .
  then show ?case
    using send_critical_slot [OF c] attempt_except_slot [OF f] by simp
next
  case (reconnect_started_spawn s t a rest j' w')
  then show ?case
    using start_reconnect_thread_slot [OF reconnect_started_spawn(3)]
      wire_nil [OF start_reconnect_thread_sent [OF reconnect_started_spawn(3)]] by simp
next
  case (reconnect_started_spawn_except s t a rest e jw1 r j' w')
  obtain j1 w1 where jw1: "jw1 = (j1, w1)" by (cases jw1)
  note c = reconnect_started_spawn_except(3) [unfolded jw1]
  note f = reconnect_started_spawn_except(4) [unfolded jw1]
  have "\<exists>new. trace w' = trace (world s) @ new \<and>
                list_all (carries_envelope (job_id (obj s))) (sent new)"
    using wire_trans [OF wire_nil [OF start_reconnect_thread_sent [OF c]]
                          wire_nil [OF attempt_except_sent [OF f]]] .
  then show ?case
    using start_reconnect_thread_slot [OF c] attempt_except_slot [OF f] by simp
next
  case (reconnect_report s t ok r w')
  then show ?case using wire_nil [OF print_stderr_sent [OF reconnect_report(2)]] by simp
next
  case (reconnect_clear s t)
  then show ?case by simp
qed

lemma reachable_wire:
  assumes "reachable E j0 s"
  shows "job_id (obj s) = job_id j0 \<and> list_all (carries_envelope (job_id j0)) (sent (trace (world s)))"
  using assms
proof (induction rule: reachable.induct)
  case (reach_start jid nm dat path hb ri mra)
  then show ?case by (simp add: sys0_def io0_def)
next
  case (reach_step s s')
  from step_wire [OF reach_step(2)] reach_step(3) show ?case by auto
qed

lemma read_job_truthy: "read_job E hb = Inr j \<Longrightarrow> truthy (job_id j)"
  by (auto simp: read_job_def Let_def init_def split: if_splits sum.splits pyval.splits)

text \<open>
  C9. The job id is the one given to \<^verbatim>\<open>__init__\<close> and no step of any thread
  changes it; \<^verbatim>\<open>run_job\<close> builds a job only with an id that is not empty. In
  every state the threads of a job can reach, every document that was given to
  \<^verbatim>\<open>sendall\<close> carries that job id, an integer timestamp and one of the six
  types. For a single send of an event: the only document it can give to the
  transport is the stamped dictionary, whose \<open>jobId\<close> is the job's id, whose
  \<open>timestamp\<close> is the clock reading in seconds times 1000, truncated to an integer,
  and whose \<open>type\<close> is the kind of the event.
\<close>

theorem sent_events_carry_envelope:
  "(reachable E j0 s \<longrightarrow>
      job_id (obj s) = job_id j0 \<and>
      list_all (carries_envelope (job_id j0)) (sent (trace (world s)))) \<and>
   sent (new_actions w (snd (snd (snd (send_message E (event_msg ev) (j, w)))))) =
     (if socket j \<noteq> None \<and> well_formed E (PDict (stamped E (event_msg ev) (j, w)))
      then [PDict (stamped E (event_msg ev) (j, w))] else []) \<and>
   map_of (stamped E (event_msg ev) (j, w)) ''jobId'' = Some (job_id j) \<and>
   map_of (stamped E (event_msg ev) (j, w)) ''timestamp'' =
     Some (PInt (py_int (time_time E (n_time w) * 1000))) \<and>
   map_of (stamped E (event_msg ev) (j, w)) ''type'' = Some (PStr (event_kind ev)) \<and>
   job_id (init jid nm dat path hb ri mra) = jid \<and>
   (read_job E hb' = Inr j1 \<longrightarrow> truthy (job_id j1))"
proof -
  have a: "reachable E j0 s \<longrightarrow>
      job_id (obj s) = job_id j0 \<and>
      list_all (carries_envelope (job_id j0)) (sent (trace (world s)))"
    using reachable_wire by blast
  have "send_message E (event_msg ev) (j, w) =
      (fst (send_message E (event_msg ev) (j, w)), fst (snd (send_message E (event_msg ev) (j, w))),
       fst (snd (snd (send_message E (event_msg ev) (j, w)))),
       snd (snd (snd (send_message E (event_msg ev) (j, w)))))"
    by simp
  from send_message_frame(8) [OF this]
  have b: "sent (new_actions w (snd (snd (snd (send_message E (event_msg ev) (j, w)))))) =
     (if socket j \<noteq> None \<and> well_formed E (PDict (stamped E (event_msg ev) (j, w)))
      then [PDict (stamped E (event_msg ev) (j, w))] else [])" .
  have c: "map_of (stamped E (event_msg ev) (j, w)) ''jobId'' = Some (job_id j) \<and>
   map_of (stamped E (event_msg ev) (j, w)) ''timestamp'' =
     Some (PInt (py_int (time_time E (n_time w) * 1000))) \<and>
   map_of (stamped E (event_msg ev) (j, w)) ''type'' = Some (PStr (event_kind ev))"
    by (simp add: map_of_stamped event_msg_type)
  have d: "job_id (init jid nm dat path hb ri mra) = jid"
    by (simp add: init_def)
  have e: "read_job E hb' = Inr j1 \<longrightarrow> truthy (job_id j1)"
    using read_job_truthy by blast
  from a b c d e show ?thesis by blast
qed

theorem sent_events_carry_envelope_witness:
  "job_id (obj ex_sys_reconnecting) = job_id ex_job \<and>
   list_all (carries_envelope (job_id ex_job)) (sent (trace (world ex_sys_reconnecting))) \<and>
   sent (trace (world ex_sys_reconnecting)) =
     [PDict [(''type'', PStr ''started''), (''jobId'', PStr ''j1''), (''timestamp'', PInt 1700000000000)]] \<and>
   truthy (job_id ex_job)"
proof -
  have s: "sent (trace (world ex_sys_reconnecting)) =
     [PDict [(''type'', PStr ''started''), (''jobId'', PStr ''j1''), (''timestamp'', PInt 1700000000000)]]"
    by (simp add: ex_sys_reconnecting_def ex_sys_lost_def ex_sys_connected_eq
        ex_defs run_defs int_fits)
  from sent_events_carry_envelope [where E = ex_env_broken and ?j0.0 = ex_job and s = ex_sys_reconnecting]
    ex_reachable
  have a: "job_id (obj ex_sys_reconnecting) = job_id ex_job \<and>
      list_all (carries_envelope (job_id ex_job)) (sent (trace (world ex_sys_reconnecting)))"
    by blast
  from sent_events_carry_envelope [where E = ex_env_job and hb' = default_heartbeat_interval and ?j1.0 = ex_job]
    ex_read_job
  have b: "truthy (job_id ex_job)"
    by blast
  from a b s show ?thesis by blast
qed

section \<open>The steps of the threads and the functions\<close>

text \<open>
  The step relation cuts the functions of the sequential model into pieces. Put
  together again, the pieces are the functions: \<^verbatim>\<open>connect\<close> is its preparation
  followed by the started message; a send is its critical part followed, when the
  test held, by the start of the thread (\<open>send_message_critical\<close> above); and a
  reconnection thread left alone walks from its entry to its end through the very
  states \<open>reconnect_loop\<close> computes, also when a print or a sleep raises on the
  way.
\<close>

lemma connect_prepare_connect:
  "connect E jw =
     (case do_connect E jw of
        (Inl e, jw1) \<Rightarrow> (Inl e, connect_prepare E jw)
      | (Inr v, j1, w1) \<Rightarrow>
          (case fst (start_heartbeat E (j1\<lparr>running := True, connected := True\<rparr>, w1)) of
             Some x \<Rightarrow> (Inl x, connect_prepare E jw)
           | None \<Rightarrow> send_started E (connect_prepare E jw)))"
  by (cases jw)
     (auto simp: connect_prepare_def Let_def split: prod.splits sum.splits option.splits
           simp del: do_connect.simps)

lemma send_started_critical:
  assumes "reconnect_thread j \<noteq> None"
    and "send_critical E [(''type'', PStr ''started'')] (j, w) = (r, sp, m', j', w')"
  shows "sp = False \<and> send_started E (j, w) = ((case r of Inl e \<Rightarrow> Inl e | Inr b \<Rightarrow> Inr PNone), j', w')"
proof -
  have sp: "sp = False"
    using send_critical_slot [OF assms(2)] assms(1) by auto
  have "send_message E [(''type'', PStr ''started'')] (j, w) = (r, m', j', w')"
    using assms(2) sp by (simp add: send_message_critical del: send_message.simps send_critical.simps)
  then show ?thesis using sp by (cases r) (simp_all add: send_started_def del: send_message.simps)
qed

text \<open>
  The \<^verbatim>\<open>except\<close> clause of an attempt, as a step: the thread goes on with the
  attempts left, or ends.
\<close>

lemma except_runs:
  assumes ih: "\<And>s1. rthreads s1 t = Some (R_loop rest) \<Longrightarrow> send_lock s1 = None \<Longrightarrow>
                 reconnect_thread (obj s1) \<noteq> None \<Longrightarrow>
                 reconnect_attempts E rest (obj s1, world s1) = (r, j', w') \<Longrightarrow>
                 (step E)\<^sup>*\<^sup>* s1
                   (s1\<lparr>obj := j', world := w', reconnect_lock := None, rthreads := (rthreads s1)(t := pc)\<rparr>)"
    and ex: "attempt_except E a e (jk, wk) = (r2, j2, w2)"
    and st: "step E sk (sk\<lparr>obj := j2, world := w2, reconnect_lock := kept_lock r2 (reconnect_lock sk),
                            rthreads := (rthreads sk)(t := goes_on r2 (R_loop rest))\<rparr>)"
    and lock: "send_lock sk = None"
    and slot: "reconnect_thread jk \<noteq> None"
    and res: "(case r2 of Some x \<Rightarrow> (Inl x, j2, w2) | None \<Rightarrow> reconnect_attempts E rest (j2, w2)) = (r, j', w')"
    and pc: "pc = (case r of Inl e \<Rightarrow> None | Inr ok \<Rightarrow> Some (R_report ok))"
  shows "(step E)\<^sup>*\<^sup>* sk
           (sk\<lparr>obj := j', world := w', reconnect_lock := None, rthreads := (rthreads sk)(t := pc)\<rparr>)"
proof (cases r2)
  case None
  let ?s1 = "sk\<lparr>obj := j2, world := w2, rthreads := (rthreads sk)(t := Some (R_loop rest))\<rparr>"
  have st1: "step E sk ?s1"
    using st None by simp
  have rec: "reconnect_attempts E rest (obj ?s1, world ?s1) = (r, j', w')"
    using res None by simp
  have slot2: "reconnect_thread (obj ?s1) \<noteq> None"
    using slot attempt_except_slot [OF ex] by simp
  have run: "(step E)\<^sup>*\<^sup>* ?s1
      (?s1\<lparr>obj := j', world := w', reconnect_lock := None, rthreads := (rthreads ?s1)(t := pc)\<rparr>)"
    using lock slot2 rec by (intro ih) simp_all
  have eqF: "sk\<lparr>obj := j', world := w', reconnect_lock := None, rthreads := (rthreads sk)(t := pc)\<rparr> =
      ?s1\<lparr>obj := j', world := w', reconnect_lock := None, rthreads := (rthreads ?s1)(t := pc)\<rparr>"
    by simp
  show ?thesis
    by (subst eqF) (rule converse_rtranclp_into_rtranclp [of "step E", OF st1 run])
next
  case (Some x)
  have eq: "r = Inl x" "j' = j2" "w' = w2" "pc = None"
    using res pc Some by auto
  have st1: "step E sk (sk\<lparr>obj := j2, world := w2, reconnect_lock := None, rthreads := (rthreads sk)(t := None)\<rparr>)"
    using st Some by simp
  have eqF: "sk\<lparr>obj := j', world := w', reconnect_lock := None, rthreads := (rthreads sk)(t := pc)\<rparr> =
      sk\<lparr>obj := j2, world := w2, reconnect_lock := None, rthreads := (rthreads sk)(t := None)\<rparr>"
    by (simp add: eq)
  show ?thesis by (subst eqF) (rule r_into_rtranclp [of "step E", OF st1])
qed

lemma loop_runs:
  assumes "rthreads s t = Some (R_loop as)" and "send_lock s = None"
    and "reconnect_thread (obj s) \<noteq> None"
    and "reconnect_attempts E as (obj s, world s) = (r, j', w')"
    and "pc = (case r of Inl e \<Rightarrow> None | Inr ok \<Rightarrow> Some (R_report ok))"
  shows "(step E)\<^sup>*\<^sup>* s
           (s\<lparr>obj := j', world := w', reconnect_lock := None, rthreads := (rthreads s)(t := pc)\<rparr>)"
  using assms
proof (induction as arbitrary: s)
  case Nil
  obtain r0 w0 where p: "print_stderr E (FailedToReconnectAfter (max_reconnect_attempts (obj s))) (world s) = (r0, w0)"
    by (cases "print_stderr E (FailedToReconnectAfter (max_reconnect_attempts (obj s))) (world s)") blast
  have eq: "j' = obj s \<and> w' = w0 \<and> pc = goes_on r0 (R_report False)"
    using Nil(4,5) p by (cases r0) (auto simp del: print_stderr.simps)
  have st: "step E s (s\<lparr>world := w0, reconnect_lock := None,
                         rthreads := (rthreads s)(t := goes_on r0 (R_report False))\<rparr>)"
    using Nil(1) p by (rule step.reconnect_exhausted)
  have eqF: "(s\<lparr>obj := j', world := w', reconnect_lock := None, rthreads := (rthreads s)(t := pc)\<rparr>) =
      s\<lparr>world := w0, reconnect_lock := None, rthreads := (rthreads s)(t := goes_on r0 (R_report False))\<rparr>"
    by (simp add: eq)
  show ?case by (subst eqF) (rule r_into_rtranclp [of "step E", OF st])
next
  case (Cons a rest)
  note ih = Cons.IH [OF _ _ _ _ Cons.prems(5)]
  obtain r1 j1 w1 where c: "attempt_connect E (obj s, world s) = (r1, j1, w1)"
    by (cases "attempt_connect E (obj s, world s)") blast
  note slot1 = attempt_connect_slot [OF c]
  show ?case
  proof (cases r1)
    case (Inl e)
    obtain r2 j2 w2 where ex: "attempt_except E a e (j1, w1) = (r2, j2, w2)"
      by (cases "attempt_except E a e (j1, w1)") blast
    have st: "step E s (s\<lparr>obj := j2, world := w2, reconnect_lock := kept_lock r2 (reconnect_lock s),
                            rthreads := (rthreads s)(t := goes_on r2 (R_loop rest))\<rparr>)"
      using step.reconnect_attempt_except [OF Cons.prems(1) c [unfolded Inl] ex] .
    have res: "(case r2 of Some x \<Rightarrow> (Inl x, j2, w2) | None \<Rightarrow> reconnect_attempts E rest (j2, w2)) = (r, j', w')"
      using Cons.prems(4) c Inl ex
      by (cases r2) (simp_all add: attempt_try_def del: attempt_failed.simps)
    have slot: "reconnect_thread j1 \<noteq> None"
      using Cons.prems(3) slot1 by simp
    show ?thesis
      using ih ex st Cons.prems(2) slot res Cons.prems(5) by (rule except_runs)
  next
    case (Inr v)
    let ?s1 = "s\<lparr>obj := j1, world := w1, rthreads := (rthreads s)(t := Some (R_connected a rest))\<rparr>"
    have st1: "step E s ?s1"
      using step.reconnect_attempt_ok [OF Cons.prems(1) c [unfolded Inr]] .
    have slot: "reconnect_thread j1 \<noteq> None"
      using Cons.prems(3) slot1 by simp
    obtain rm j2 w2 where m: "mark_reconnected E a (j1, w1) = (rm, j2, w2)"
      by (cases "mark_reconnected E a (j1, w1)") blast
    have slot2: "reconnect_thread j2 \<noteq> None"
      using slot mark_reconnected_slot [OF m] by simp
    have eq1: "s\<lparr>obj := j', world := w', reconnect_lock := None, rthreads := (rthreads s)(t := pc)\<rparr> =
        ?s1\<lparr>obj := j', world := w', reconnect_lock := None, rthreads := (rthreads ?s1)(t := pc)\<rparr>"
      by simp
    have from1: "(step E)\<^sup>*\<^sup>* ?s1
        (?s1\<lparr>obj := j', world := w', reconnect_lock := None, rthreads := (rthreads ?s1)(t := pc)\<rparr>)"
    proof (cases rm)
      case (Some e)
      obtain r2 j3 w3 where ex: "attempt_except E a e (j2, w2) = (r2, j3, w3)"
        by (cases "attempt_except E a e (j2, w2)") blast
      have st: "step E ?s1 (?s1\<lparr>obj := j3, world := w3, reconnect_lock := kept_lock r2 (reconnect_lock ?s1),
                              rthreads := (rthreads ?s1)(t := goes_on r2 (R_loop rest))\<rparr>)"
        by (rule step.reconnect_mark_except [of ?s1 t a rest E e "(j2, w2)"])
           (simp_all add: m [unfolded Some] ex del: mark_reconnected.simps)
      have res: "(case r2 of Some x \<Rightarrow> (Inl x, j3, w3) | None \<Rightarrow> reconnect_attempts E rest (j3, w3)) = (r, j', w')"
        using Cons.prems(4) c Inr m Some ex
        by (cases r2) (simp_all add: attempt_try_def del: attempt_failed.simps mark_reconnected.simps)
      have lock: "send_lock ?s1 = None"
        using Cons.prems(2) by simp
      show ?thesis
        using ih ex st lock slot2 res Cons.prems(5) by (rule except_runs)
    next
      case None
      let ?s2 = "?s1\<lparr>obj := j2, world := w2, rthreads := (rthreads ?s1)(t := Some (R_started a rest))\<rparr>"
      have st2: "step E ?s1 ?s2"
        by (rule step.reconnect_mark [of ?s1 t a rest])
           (simp_all add: m [unfolded None] del: mark_reconnected.simps)
      obtain r3 sp m3 j3 w3 where sc: "send_critical E [(''type'', PStr ''started'')] (j2, w2) = (r3, sp, m3, j3, w3)"
        by (cases "send_critical E [(''type'', PStr ''started'')] (j2, w2)") blast
      note ss = send_started_critical [OF slot2 sc]
      have atry: "attempt_try E a (obj s, world s) = ((case r3 of Inl e \<Rightarrow> Inl e | Inr b \<Rightarrow> Inr PNone), j3, w3)"
        using c Inr m None ss by (simp add: attempt_try_def del: mark_reconnected.simps)
      have sc2: "send_critical E [(''type'', PStr ''started'')] (obj ?s2, world ?s2) = (r3, False, m3, j3, w3)"
        using sc ss by simp
      have lock2: "send_lock ?s2 = None" "rthreads ?s2 t = Some (R_started a rest)"
        using Cons.prems(2) by simp_all
      have slot3: "reconnect_thread j3 \<noteq> None"
        using slot2 send_critical_slot [OF sc] by simp
      have eq2: "?s1\<lparr>obj := j', world := w', reconnect_lock := None, rthreads := (rthreads ?s1)(t := pc)\<rparr> =
          ?s2\<lparr>obj := j', world := w', reconnect_lock := None, rthreads := (rthreads ?s2)(t := pc)\<rparr>"
        by simp
      have from2: "(step E)\<^sup>*\<^sup>* ?s2
          (?s2\<lparr>obj := j', world := w', reconnect_lock := None, rthreads := (rthreads ?s2)(t := pc)\<rparr>)"
      proof (cases r3)
        case (Inr b)
        have eq: "r = Inr True" "j' = j3" "w' = w3" "pc = Some (R_report True)"
          using Cons.prems(4,5) atry Inr by auto
        have st3: "step E ?s2 (?s2\<lparr>obj := j3, world := w3, reconnect_lock := None,
                    rthreads := (rthreads ?s2)(t := Some (R_report True))\<rparr>)"
          using step.reconnect_started [OF lock2(2) lock2(1) sc2 [unfolded Inr]] .
        have eqF: "?s2\<lparr>obj := j', world := w', reconnect_lock := None, rthreads := (rthreads ?s2)(t := pc)\<rparr> =
            ?s2\<lparr>obj := j3, world := w3, reconnect_lock := None,
                    rthreads := (rthreads ?s2)(t := Some (R_report True))\<rparr>"
          by (simp add: eq)
        show ?thesis by (subst eqF) (rule r_into_rtranclp [of "step E", OF st3])
      next
        case (Inl e)
        obtain r2 j4 w4 where ex: "attempt_except E a e (j3, w3) = (r2, j4, w4)"
          by (cases "attempt_except E a e (j3, w3)") blast
        have st: "step E ?s2 (?s2\<lparr>obj := j4, world := w4, reconnect_lock := kept_lock r2 (reconnect_lock ?s2),
                                rthreads := (rthreads ?s2)(t := goes_on r2 (R_loop rest))\<rparr>)"
          using step.reconnect_started_except [OF lock2(2) lock2(1) sc2 [unfolded Inl] ex] .
        have res: "(case r2 of Some x \<Rightarrow> (Inl x, j4, w4) | None \<Rightarrow> reconnect_attempts E rest (j4, w4)) = (r, j', w')"
          using Cons.prems(4) atry Inl ex by (cases r2) (simp_all del: attempt_failed.simps)
        show ?thesis
          using ih ex st lock2(1) slot3 res Cons.prems(5) by (rule except_runs)
      qed
      have "(step E)\<^sup>*\<^sup>* ?s1
          (?s2\<lparr>obj := j', world := w', reconnect_lock := None, rthreads := (rthreads ?s2)(t := pc)\<rparr>)"
        by (rule converse_rtranclp_into_rtranclp [of "step E", OF st2 from2])
      then show ?thesis by (subst eq2)
    qed
    have "(step E)\<^sup>*\<^sup>* s
        (?s1\<lparr>obj := j', world := w', reconnect_lock := None, rthreads := (rthreads ?s1)(t := pc)\<rparr>)"
      by (rule converse_rtranclp_into_rtranclp [of "step E", OF st1 from1])
    then show ?thesis by (subst eq1)
  qed
qed

lemma report_and_clear:
  assumes "rthreads s t = Some (R_report ok)"
    and "print_stderr E (if ok then ReconnectionSuccessful else ReconnectionFailed) (world s) = (r, w')"
  shows "(step E)\<^sup>*\<^sup>* s
           (s\<lparr>obj := (case r of None \<Rightarrow> (obj s)\<lparr>reconnect_thread := None\<rparr> | Some x \<Rightarrow> obj s),
              world := w', rthreads := (rthreads s)(t := None)\<rparr>)"
proof (cases r)
  case (Some x)
  have st1: "step E s (s\<lparr>world := w', rthreads := (rthreads s)(t := goes_on r R_clear)\<rparr>)"
    using assms by (rule step.reconnect_report)
  have eqF: "s\<lparr>obj := (case r of None \<Rightarrow> (obj s)\<lparr>reconnect_thread := None\<rparr> | Some x \<Rightarrow> obj s),
              world := w', rthreads := (rthreads s)(t := None)\<rparr> =
      s\<lparr>world := w', rthreads := (rthreads s)(t := goes_on r R_clear)\<rparr>"
    using Some by simp
  show ?thesis by (subst eqF) (rule r_into_rtranclp [of "step E", OF st1])
next
  case None
  let ?s1 = "s\<lparr>world := w', rthreads := (rthreads s)(t := Some R_clear)\<rparr>"
  let ?s2 = "?s1\<lparr>obj := (obj ?s1)\<lparr>reconnect_thread := None\<rparr>, rthreads := (rthreads ?s1)(t := None)\<rparr>"
  have "step E s (s\<lparr>world := w', rthreads := (rthreads s)(t := goes_on r R_clear)\<rparr>)"
    using assms by (rule step.reconnect_report)
  then have st1: "step E s ?s1"
    using None by simp
  have st2: "step E ?s1 ?s2"
    by (rule step.reconnect_clear) simp
  have eqF: "s\<lparr>obj := (case r of None \<Rightarrow> (obj s)\<lparr>reconnect_thread := None\<rparr> | Some x \<Rightarrow> obj s),
              world := w', rthreads := (rthreads s)(t := None)\<rparr> = ?s2"
    using None by simp
  have "(step E)\<^sup>*\<^sup>* s ?s2"
    using st1 st2 by (meson r_into_rtranclp rtranclp_trans)
  then show ?thesis by (subst eqF)
qed

lemma reconnect_thread_runs:
  assumes "rthreads s t = Some R_entry" and "reconnect_lock s = None" and "send_lock s = None"
    and "reconnect_thread (obj s) \<noteq> None"
    and "reconnect_loop E (obj s, world s) = (r, j', w')"
  shows "(step E)\<^sup>*\<^sup>* s
           (s\<lparr>obj := j', world := w', reconnect_lock := None, rthreads := (rthreads s)(t := None)\<rparr>)"
proof -
  obtain r0 j0 w0 where tr: "try_reconnect E (obj s, world s) = (r0, j0, w0)"
    by (cases "try_reconnect E (obj s, world s)") blast
  define pc where "pc = (case r0 of Inl e \<Rightarrow> None | Inr ok \<Rightarrow> Some (R_report ok))"
  let ?s2 = "s\<lparr>obj := j0, world := w0, reconnect_lock := None, rthreads := (rthreads s)(t := pc)\<rparr>"
  have to2: "(step E)\<^sup>*\<^sup>* s ?s2"
  proof (cases "connected (obj s)")
    case True
    have eq: "r0 = Inr True" "j0 = obj s" "w0 = world s" "pc = Some (R_report True)"
      using tr True pc_def by auto
    have st1: "step E s (s\<lparr>rthreads := (rthreads s)(t := Some (R_report True))\<rparr>)"
      using assms(1,2) True by (rule step.reconnect_entry_connected)
    have eqF: "?s2 = s\<lparr>rthreads := (rthreads s)(t := Some (R_report True))\<rparr>"
      using assms(2) by (simp add: eq)
    show ?thesis by (subst eqF) (rule r_into_rtranclp [of "step E", OF st1])
  next
    case False
    let ?as = "[0..<nat (max_reconnect_attempts (obj s))]"
    obtain rp wp where p: "print_stderr E AttemptingReconnect (world s) = (rp, wp)"
      by (cases "print_stderr E AttemptingReconnect (world s)") blast
    have st1: "step E s (s\<lparr>world := wp, reconnect_lock := kept_lock rp (Some t),
                          rthreads := (rthreads s)(t := goes_on rp (R_loop ?as))\<rparr>)"
      using assms(1,2) False p by (rule step.reconnect_entry)
    show ?thesis
    proof (cases rp)
      case (Some x)
      have eq: "r0 = Inl x" "j0 = obj s" "w0 = wp" "pc = None"
        using tr False p Some pc_def by (auto simp del: print_stderr.simps)
      have eqF: "?s2 = s\<lparr>world := wp, reconnect_lock := kept_lock rp (Some t),
                          rthreads := (rthreads s)(t := goes_on rp (R_loop ?as))\<rparr>"
        using Some by (simp add: eq)
      show ?thesis by (subst eqF) (rule r_into_rtranclp [of "step E", OF st1])
    next
      case None
      let ?s1 = "s\<lparr>world := wp, reconnect_lock := Some t, rthreads := (rthreads s)(t := Some (R_loop ?as))\<rparr>"
      have st1': "step E s ?s1"
        using st1 None by simp
      have ra: "reconnect_attempts E ?as (obj ?s1, world ?s1) = (r0, j0, w0)"
        using tr False p None by (simp del: print_stderr.simps)
      have lp: "(step E)\<^sup>*\<^sup>* ?s1
          (?s1\<lparr>obj := j0, world := w0, reconnect_lock := None, rthreads := (rthreads ?s1)(t := pc)\<rparr>)"
        using assms(3,4) ra pc_def by (intro loop_runs [of ?s1 t ?as E r0 j0 w0 pc]) simp_all
      have eqF: "?s2 = ?s1\<lparr>obj := j0, world := w0, reconnect_lock := None, rthreads := (rthreads ?s1)(t := pc)\<rparr>"
        by simp
      show ?thesis
        by (subst eqF) (rule converse_rtranclp_into_rtranclp [of "step E", OF st1' lp])
    qed
  qed
  show ?thesis
  proof (cases r0)
    case (Inl e)
    have eq: "j' = j0" "w' = w0" "pc = None"
      using assms(5) tr Inl pc_def
      by (auto simp del: try_reconnect.simps)
    have eqF: "s\<lparr>obj := j', world := w', reconnect_lock := None, rthreads := (rthreads s)(t := None)\<rparr> = ?s2"
      by (simp add: eq)
    show ?thesis by (subst eqF) (rule to2)
  next
    case (Inr ok)
    obtain rq wq where q: "print_stderr E (if ok then ReconnectionSuccessful else ReconnectionFailed) w0 = (rq, wq)"
      by (cases "print_stderr E (if ok then ReconnectionSuccessful else ReconnectionFailed) w0") blast
    have eq: "j' = (case rq of None \<Rightarrow> j0\<lparr>reconnect_thread := None\<rparr> | Some x \<Rightarrow> j0) \<and> w' = wq \<and>
      pc = Some (R_report ok)"
      using assms(5) tr Inr pc_def q
      by (cases rq) (auto simp del: try_reconnect.simps print_stderr.simps)
    have rc: "(step E)\<^sup>*\<^sup>* ?s2
           (?s2\<lparr>obj := (case rq of None \<Rightarrow> (obj ?s2)\<lparr>reconnect_thread := None\<rparr> | Some x \<Rightarrow> obj ?s2),
              world := wq, rthreads := (rthreads ?s2)(t := None)\<rparr>)"
      by (rule report_and_clear [of ?s2 t ok E rq wq]) (simp_all add: eq q del: print_stderr.simps)
    have eqF: "s\<lparr>obj := j', world := w', reconnect_lock := None, rthreads := (rthreads s)(t := None)\<rparr> =
           (?s2\<lparr>obj := (case rq of None \<Rightarrow> (obj ?s2)\<lparr>reconnect_thread := None\<rparr> | Some x \<Rightarrow> obj ?s2),
              world := wq, rthreads := (rthreads ?s2)(t := None)\<rparr>)"
      by (cases rq) (simp_all add: eq)
    show ?thesis
      by (subst eqF) (rule rtranclp_trans [of "step E", OF to2 rc])
  qed
qed

end
